theory Spec2Isabelle
  imports Complex_Main "HOL-Library.Multiset"
begin

section \<open>MetaPhlAn 2: the taxonomic abundance model of \<^verbatim>\<open>metaphlan2.py\<close>\<close>

text \<open>
  The development embeds the classes \<^verbatim>\<open>TaxClade\<close> and \<^verbatim>\<open>TaxTree\<close> and the
  sorting of the relative-abundance table.

  Conventions of the embedding.
  \<^item> Python \<^verbatim>\<open>int\<close> is \<open>int\<close>. Python \<^verbatim>\<open>float\<close> is idealised as \<open>real\<close>: the
    arithmetic is exact, the literals \<^verbatim>\<open>0.33\<close> and \<^verbatim>\<open>0.7\<close> are the rationals
    \<open>33/100\<close> and \<open>7/10\<close>, and rounding error is not modelled. The one float value
    with no real counterpart, the NaN that \<^verbatim>\<open>numpy.mean\<close> and \<^verbatim>\<open>numpy.median\<close>
    return on an empty sequence, is the outcome \<open>Inl NaN_result\<close>.
  \<^item> Every exception of the source is a value \<open>Inl e\<close> of the result type; the state
    an exception leaves behind is not modelled, since the program does not catch it.
  \<^item> A \<^verbatim>\<open>dict\<close> is an association list with distinct keys, in the dictionary's
    iteration order; storing under a present key keeps its position, and a new key
    is put at the end (the order of insertion; Python 2 fixes no order, and no
    property below is about the place of a new key).
  \<^item> The clade objects form a tree by construction (\<^verbatim>\<open>add_child\<close> is the only
    way a clade gets a child, and it always creates the child), so a clade is a value
    of a recursive datatype. The non-owning \<^verbatim>\<open>father\<close> reference is the list of
    ancestors handed down to a clade (nearest first, root last), and a reference to a
    clade held in an index of the tree is the path of child names that leads to it
    from the root. A path that leads nowhere cannot arise in the source; the model
    reports it as \<open>Inl Dangling\<close>.
\<close>

subsection \<open>Python values and containers\<close>

datatype py_error =
  KeyError | IndexError | ZeroDivisionError | ValueError | TypeError
  | AttributeError | NaN_result | Dangling

type_synonym ('k, 'v) dict = "('k \<times> 'v) list"

text \<open>\<^verbatim>\<open>d[k]\<close>: the value stored under \<open>k\<close>, or \<^verbatim>\<open>KeyError\<close>.\<close>

definition dict_get :: "('k, 'v) dict \<Rightarrow> 'k \<Rightarrow> py_error + 'v" where
  "dict_get d k = (case map_of d k of None \<Rightarrow> Inl KeyError | Some v \<Rightarrow> Inr v)"

text \<open>\<^verbatim>\<open>d[k] = v\<close>: overwrite in place, or add a new entry.\<close>

fun dict_set :: "('k, 'v) dict \<Rightarrow> 'k \<Rightarrow> 'v \<Rightarrow> ('k, 'v) dict" where
  "dict_set [] k v = [(k, v)]"
| "dict_set ((k', v') # d) k v =
     (if k' = k then (k, v) # d else (k', v') # dict_set d k v)"

text \<open>\<^verbatim>\<open>s.startswith(p)\<close> and \<^verbatim>\<open>p in s\<close> on strings, \<^verbatim>\<open>s.count(c)\<close> for one character.\<close>

definition startswith :: "string \<Rightarrow> string \<Rightarrow> bool" where
  "startswith s p = (take (length p) s = p)"

fun str_contains :: "string \<Rightarrow> string \<Rightarrow> bool" where
  "str_contains p [] = (p = [])"
| "str_contains p (c # cs) = (startswith (c # cs) p \<or> str_contains p cs)"

definition str_count :: "string \<Rightarrow> char \<Rightarrow> nat" where
  "str_count s c = length (filter (\<lambda>x. x = c) s)"

text \<open>\<^verbatim>\<open>sep.join(parts)\<close>.\<close>

fun str_join :: "string \<Rightarrow> string list \<Rightarrow> string" where
  "str_join sep [] = []"
| "str_join sep [p] = p"
| "str_join sep (p # q # ps) = p @ sep @ str_join sep (q # ps)"

text \<open>
  \<^verbatim>\<open>s.split(sep)\<close> for a separator that is not empty (both separators of the source
  are literals): the pieces between the occurrences of \<open>sep\<close>, from left to right.
\<close>

fun split_from :: "string \<Rightarrow> string \<Rightarrow> string \<Rightarrow> string list" where
  "split_from sep acc [] = [rev acc]"
| "split_from sep acc (c # cs) =
     (if startswith (c # cs) sep then rev acc # split_from sep [] (drop (length sep - 1) cs)
      else split_from sep (c # acc) cs)"

definition py_split :: "string \<Rightarrow> string \<Rightarrow> string list" where
  "py_split s sep = split_from sep [] s"

text \<open>
  Python indexing \<^verbatim>\<open>xs[i]\<close> and slicing \<^verbatim>\<open>xs[lo:hi]\<close>: a negative index counts from
  the end; an index out of range raises, a slice bound out of range is clipped;
  \<^verbatim>\<open>None\<close> as a bound means the end of the list on that side.
\<close>

definition py_index :: "'a list \<Rightarrow> int \<Rightarrow> py_error + 'a" where
  "py_index xs i =
     (if 0 \<le> i \<and> i < int (length xs) then Inr (xs ! nat i)
      else if i < 0 \<and> - int (length xs) \<le> i then Inr (xs ! nat (int (length xs) + i))
      else Inl IndexError)"

definition py_index_opt :: "'a list \<Rightarrow> int option \<Rightarrow> py_error + 'a" where
  "py_index_opt xs io = (case io of None \<Rightarrow> Inl TypeError | Some i \<Rightarrow> py_index xs i)"

definition slice_bound :: "nat \<Rightarrow> int \<Rightarrow> nat" where
  "slice_bound n i = (if i < 0 then nat (max (int n + i) 0) else min (nat i) n)"

definition py_slice :: "'a list \<Rightarrow> int option \<Rightarrow> int option \<Rightarrow> 'a list" where
  "py_slice xs lo hi =
     (let n = length xs;
          a = (case lo of None \<Rightarrow> 0 | Some i \<Rightarrow> slice_bound n i);
          b = (case hi of None \<Rightarrow> n | Some j \<Rightarrow> slice_bound n j)
      in take (b - a) (drop a xs))"

text \<open>\<^verbatim>\<open>int(x)\<close> of a float truncates towards zero.\<close>

definition py_int :: "real \<Rightarrow> int" where
  "py_int x = (if 0 \<le> x then \<lfloor>x\<rfloor> else \<lceil>x\<rceil>)"

text \<open>\<^verbatim>\<open>numpy.mean\<close> and \<^verbatim>\<open>numpy.median\<close> of a list of floats.\<close>

definition np_mean :: "real list \<Rightarrow> py_error + real" where
  "np_mean xs = (if xs = [] then Inl NaN_result else Inr (sum_list xs / real (length xs)))"

definition np_median :: "real list \<Rightarrow> py_error + real" where
  "np_median xs =
     (let ys = sort xs; n = length ys
      in if n = 0 then Inl NaN_result
         else if odd n then Inr (ys ! (n div 2))
         else Inr ((ys ! (n div 2 - 1) + ys ! (n div 2)) / 2))"

subsection \<open>Configuration and the statistic modes\<close>

text \<open>
  The command line restricts \<^verbatim>\<open>--stat\<close> to seven strings; \<^verbatim>\<open>set_stat\<close> and
  \<^verbatim>\<open>set_min_cu_len\<close> store the configuration in class attributes of \<^verbatim>\<open>TaxClade\<close>.
\<close>

datatype stat_mode = avg_g | avg_l | tavg_g | tavg_l | wavg_g | wavg_l | med

record config =
  stat :: stat_mode
  quantile :: real
  min_cu_len :: int
  avoid_disqm :: bool

subsection \<open>The local estimate of \<^verbatim>\<open>compute_abundance\<close>\<close>

text \<open>
  The active markers are pairs \<open>(length, count)\<close>. \<open>ratios\<close> is the comprehension
  \<^verbatim>\<open>[float(n)/r for r,n in rat_nreads]\<close>, which raises on a zero length.
\<close>

fun ratios :: "(int \<times> int) list \<Rightarrow> py_error + real list" where
  "ratios [] = Inr []"
| "ratios ((r, n) # ps) =
     (if r = 0 then Inl ZeroDivisionError
      else case ratios ps of Inl e \<Rightarrow> Inl e | Inr qs \<Rightarrow> Inr (real_of_int n / real_of_int r # qs))"

text \<open>\<^verbatim>\<open>rat = float(sum(rat_v)) or -1.0\<close>, \<^verbatim>\<open>quant = int(quantile*len(rat_nreads))\<close>.\<close>

definition rat_of :: "(int \<times> int) list \<Rightarrow> real" where
  "rat_of rat_nreads =
     (let s = real_of_int (sum_list (map fst rat_nreads)) in if s = 0 then - 1 else s)"

definition quant_of :: "real \<Rightarrow> (int \<times> int) list \<Rightarrow> int" where
  "quant_of q rat_nreads = py_int (q * real (length rat_nreads))"

text \<open>
  Lines 384 to 406: the branch on the statistic mode. \<open>rat_nreads\<close> is the active set
  sorted by count; \<open>ql\<close>, \<open>qr\<close> and \<open>qn\<close> are the trim indices of line 375.
\<close>

definition local_abundance :: "stat_mode \<Rightarrow> real \<Rightarrow> (int \<times> int) list \<Rightarrow> py_error + real" where
  "local_abundance st q rat_nreads =
     (let rat = rat_of rat_nreads;
          nreads_v = map snd rat_nreads;
          nrawreads = sum_list nreads_v;
          quant = quant_of q rat_nreads;
          ql = (if quant \<noteq> 0 then Some quant else None);
          qr = (if quant \<noteq> 0 then Some (- quant) else None);
          qn = (if quant \<noteq> 0 then quant else 0)
      in
      if rat < 0 then Inr 0
      else if st = avg_g \<or> (qn = 0 \<and> (st = wavg_g \<or> st = tavg_g)) then
        Inr (if rat \<ge> 0 then real_of_int nrawreads / rat else 0)
      else if st = avg_l \<or> (qn = 0 \<and> (st = wavg_l \<or> st = tavg_l)) then
        (case ratios rat_nreads of Inl e \<Rightarrow> Inl e | Inr rs \<Rightarrow> np_mean rs)
      else if st = tavg_g then
        (case ratios rat_nreads of Inl e \<Rightarrow> Inl e
         | Inr rs \<Rightarrow>
            (let wnreads = map snd (sort_key fst (zip rs rat_nreads));
                 band = py_slice wnreads ql qr;
                 den = map fst band; num = map snd band
             in if band = [] then Inl ValueError
                else if \<exists>d \<in> set den. d \<noteq> 0 then
                  (if sum_list den = 0 then Inl ZeroDivisionError
                   else Inr (real_of_int (sum_list num) / real_of_int (sum_list den)))
                else Inr 0))
      else if st = tavg_l then
        (case ratios rat_nreads of Inl e \<Rightarrow> Inl e
         | Inr rs \<Rightarrow> np_mean (py_slice (sort rs) ql qr))
      else if st = wavg_g then
        (case py_index_opt nreads_v ql of Inl e \<Rightarrow> Inl e
         | Inr vmin \<Rightarrow>
            (case py_index_opt nreads_v qr of Inl e \<Rightarrow> Inl e
             | Inr vmax \<Rightarrow>
                (let wnreads = replicate (nat qn) vmin @ py_slice nreads_v ql qr
                                 @ replicate (nat qn) vmax
                 in Inr (real_of_int (sum_list wnreads) / rat))))
      else if st = wavg_l then
        (case ratios rat_nreads of Inl e \<Rightarrow> Inl e
         | Inr rs \<Rightarrow>
            (let ws = sort rs in
             case py_index_opt ws ql of Inl e \<Rightarrow> Inl e
             | Inr vmin \<Rightarrow>
                (case py_index_opt ws qr of Inl e \<Rightarrow> Inl e
                 | Inr vmax \<Rightarrow>
                    np_mean (replicate (nat qn) vmin @ py_slice ws ql qr
                               @ replicate (nat qn) vmax))))
      else
        (case ratios rat_nreads of Inl e \<Rightarrow> Inl e
         | Inr rs \<Rightarrow> np_median (py_slice (sort rs) ql qr)))"

subsection \<open>Clades and the taxonomy tree\<close>

text \<open>
  \<^verbatim>\<open>TaxClade\<close>: the fields of \<^verbatim>\<open>__init__\<close>, without \<^verbatim>\<open>father\<close> (see the
  conventions above). \<open>abundance = None\<close> is Python's \<^verbatim>\<open>None\<close>: not computed yet.
\<close>

datatype clade =
  Clade (name: string) (children: "(string \<times> clade) list")
        (markers2nreads: "(string \<times> int) list") (abundance: "real option")
        (uncl_abundance: real) (subcl_uncl: bool) (uncl: bool)

type_synonym path = "string list"

text \<open>
  \<^verbatim>\<open>TaxTree\<close>: the root, the flat indices and the marker tables. \<^verbatim>\<open>markers2lens\<close>,
  \<^verbatim>\<open>markers2exts\<close> and \<^verbatim>\<open>taxa2clades\<close> are the tables the class attributes of
  \<^verbatim>\<open>TaxClade\<close> point to.
\<close>

record taxtree =
  tree_root :: clade
  all_clades :: "(string \<times> path) list"
  markers2lens :: "(string \<times> int) list"
  markers2clades :: "(string \<times> string) list"
  taxa2clades :: "(string \<times> path) list"
  markers2exts :: "(string \<times> string list) list"

fun clade_at :: "clade \<Rightarrow> path \<Rightarrow> clade option" where
  "clade_at c [] = Some c"
| "clade_at c (k # p) =
     (case map_of (children c) k of None \<Rightarrow> None | Some ch \<Rightarrow> clade_at ch p)"

text \<open>The ancestors of the clade at a path, nearest first: its \<^verbatim>\<open>father\<close> chain.\<close>

fun ancestors_at :: "clade list \<Rightarrow> clade \<Rightarrow> path \<Rightarrow> clade list" where
  "ancestors_at anc c [] = anc"
| "ancestors_at anc c (k # p) =
     (case map_of (children c) k of None \<Rightarrow> anc | Some ch \<Rightarrow> ancestors_at (c # anc) ch p)"

definition deref :: "clade \<Rightarrow> path \<Rightarrow> py_error + clade" where
  "deref r p = (case clade_at r p of None \<Rightarrow> Inl Dangling | Some c \<Rightarrow> Inr c)"

text \<open>\<^verbatim>\<open>get_terminals\<close>: the leaves below a clade, the clade itself when it is one.\<close>

fun get_terminals :: "clade \<Rightarrow> clade list"
  and get_terminals_of :: "(string \<times> clade) list \<Rightarrow> clade list" where
  "get_terminals (Clade nm chs m2n ab ua su un) =
     (if chs = [] then [Clade nm chs m2n ab ua su un] else get_terminals_of chs)"
| "get_terminals_of [] = []"
| "get_terminals_of ((k, c) # rest) = get_terminals c @ get_terminals_of rest"

text \<open>
  \<^verbatim>\<open>get_full_name\<close>: the names from the root down to the clade, the root's own name
  dropped, joined by \<^verbatim>\<open>|\<close>.
\<close>

definition get_full_name :: "clade list \<Rightarrow> clade \<Rightarrow> string" where
  "get_full_name anc c = str_join ''|'' (tl (rev (map name anc) @ [name c]))"

text \<open>
  The loop \<^verbatim>\<open>while len(cl.children) == 1: cl = list(cl.children.values())[0]\<close>, used
  by \<^verbatim>\<open>compute_abundance\<close> and by \<^verbatim>\<open>add_reads\<close>.
\<close>

fun collapse :: "clade \<Rightarrow> clade" where
  "collapse (Clade nm [(k, c)] m2n ab ua su un) = collapse c"
| "collapse c = c"

subsection \<open>Quasi-marker disambiguation (lines 332 to 370)\<close>

text \<open>\<^verbatim>\<open>sum([v>0 for v in m2nr.values()])\<close>.\<close>

definition nonzeros :: "(string \<times> int) list \<Rightarrow> nat" where
  "nonzeros m2nr = length (filter (\<lambda>(m, v). v > 0) m2nr)"

text \<open>
  The inner loop over the extended clades of one marker: \<open>Inr True\<close> when the loop sets
  \<^verbatim>\<open>misidentified\<close> and breaks, \<open>Inr False\<close> when it runs to its end.
\<close>

fun misidentified :: "taxtree \<Rightarrow> string list \<Rightarrow> py_error + bool" where
  "misidentified tr [] = Inr False"
| "misidentified tr (e # es) =
     (case dict_get (taxa2clades tr) e of Inl x \<Rightarrow> Inl x
      | Inr p \<Rightarrow>
         (case deref (tree_root tr) p of Inl x \<Rightarrow> Inl x
          | Inr toclade \<Rightarrow>
             (let m2nr = markers2nreads (collapse toclade) in
              if length m2nr \<noteq> 0 \<and> real (nonzeros m2nr) / real (length m2nr) > 33 / 100
              then Inr True
              else misidentified tr es)))"

text \<open>
  The outer loop over \<^verbatim>\<open>markers2nreads.items()\<close>: the pair of lists
  \<open>(rat_nreads, removed)\<close> it builds, each in iteration order.
\<close>

fun disqm_loop :: "config \<Rightarrow> taxtree \<Rightarrow> (string \<times> int) list
                     \<Rightarrow> py_error + ((int \<times> int) list \<times> (int \<times> int) list)" where
  "disqm_loop cfg tr [] = Inr ([], [])"
| "disqm_loop cfg tr ((m, n) # ms) =
     (case (if avoid_disqm cfg then Inr False
            else case dict_get (markers2exts tr) m of Inl x \<Rightarrow> Inl x
                 | Inr es \<Rightarrow> misidentified tr es) of
        Inl x \<Rightarrow> Inl x
      | Inr mis \<Rightarrow>
         (case dict_get (markers2lens tr) m of Inl x \<Rightarrow> Inl x
          | Inr l \<Rightarrow>
             (case disqm_loop cfg tr ms of Inl x \<Rightarrow> Inl x
              | Inr (rat_nreads, removed) \<Rightarrow>
                 if mis then Inr (rat_nreads, (l, n) # removed)
                 else Inr ((l, n) # rat_nreads, removed))))"

text \<open>Lines 358 to 364: \<^verbatim>\<open>n_ripr\<close>.\<close>

definition n_ripr_of :: "clade list \<Rightarrow> clade \<Rightarrow> nat" where
  "n_ripr_of anc c =
     (let n_ripr = 10;
          n_ripr = (if length (get_terminals c) < 2 then 0 else n_ripr);
          n_ripr = (if str_contains ''k__Viruses'' (get_full_name anc c) then 0 else n_ripr)
      in n_ripr)"

text \<open>Lines 354 to 367: the removed markers that go back into the active set.\<close>

definition restore_removed :: "config \<Rightarrow> clade list \<Rightarrow> clade
    \<Rightarrow> (int \<times> int) list \<Rightarrow> (int \<times> int) list \<Rightarrow> (int \<times> int) list" where
  "restore_removed cfg anc c rat_nreads removed =
     (if \<not> avoid_disqm cfg \<and> length removed \<noteq> 0 then
        (let n_rat_nreads = length rat_nreads;
             n_tot = n_rat_nreads + length removed;
             n_ripr = n_ripr_of anc c
         in if n_rat_nreads < n_ripr \<and> n_tot > n_rat_nreads
            then rat_nreads @ take (n_ripr - n_rat_nreads) removed
            else rat_nreads)
      else rat_nreads)"

text \<open>
  The list comprehension of lines 328 to 330 is sorted and then dropped (line 332
  rebinds \<^verbatim>\<open>rat_nreads\<close>); what remains of it is the \<^verbatim>\<open>KeyError\<close> it raises when
  a marker has no length.
\<close>

fun lens_of :: "taxtree \<Rightarrow> (string \<times> int) list \<Rightarrow> py_error + (int \<times> int) list" where
  "lens_of tr [] = Inr []"
| "lens_of tr ((m, n) # ms) =
     (case dict_get (markers2lens tr) m of Inl x \<Rightarrow> Inl x
      | Inr l \<Rightarrow> (case lens_of tr ms of Inl x \<Rightarrow> Inl x | Inr ps \<Rightarrow> Inr ((l, n) # ps)))"

text \<open>
  Lines 328 to 370: the active set, sorted by count (\<^verbatim>\<open>sorted\<close> is stable, as
  \<open>sort_key\<close> is).
\<close>

definition active_set :: "config \<Rightarrow> taxtree \<Rightarrow> clade list \<Rightarrow> clade
                            \<Rightarrow> py_error + (int \<times> int) list" where
  "active_set cfg tr anc c =
     (case lens_of tr (markers2nreads c) of Inl x \<Rightarrow> Inl x
      | Inr unused \<Rightarrow>
         (case disqm_loop cfg tr (markers2nreads c) of Inl x \<Rightarrow> Inl x
          | Inr (rat_nreads, removed) \<Rightarrow>
             Inr (sort_key snd (restore_removed cfg anc c rat_nreads removed))))"

subsection \<open>\<^verbatim>\<open>compute_abundance\<close>\<close>

text \<open>
  Line 377: the condition of the strain rule. \<^verbatim>\<open>self.name[0]\<close> raises on an empty
  name, \<^verbatim>\<open>self.father.children\<close> on a clade without father; \<^verbatim>\<open>and\<close> and \<^verbatim>\<open>or\<close>
  evaluate from left to right.
\<close>

definition strain_rule :: "clade list \<Rightarrow> clade \<Rightarrow> py_error + bool" where
  "strain_rule anc c =
     (case name c of
        [] \<Rightarrow> Inl IndexError
      | ch # rest \<Rightarrow>
         if ch \<noteq> CHR ''t'' then Inr False
         else (case anc of
                 [] \<Rightarrow> Inl AttributeError
               | father # up \<Rightarrow>
                  Inr (length (children father) > 1
                       \<or> str_contains ''_sp'' (name father)
                       \<or> str_contains ''k__Viruses'' (get_full_name anc c))))"

text \<open>Lines 378 to 380: too few of the active markers have reads.\<close>

definition too_few_nonzero :: "(int \<times> int) list \<Rightarrow> bool" where
  "too_few_nonzero rat_nreads =
     (let non_zeros = real (length (filter (\<lambda>(r, n). n > 0) rat_nreads));
          nreads = real (length rat_nreads)
      in nreads = 0 \<or> non_zeros / nreads < 7 / 10)"

definition set_abundance :: "clade \<Rightarrow> real \<Rightarrow> clade" where
  "set_abundance c a =
     Clade (name c) (children c) (markers2nreads c) (Some a)
           (uncl_abundance c) (subcl_uncl c) (uncl c)"

text \<open>
  Lines 408 to 418: the clamp against the children's sum and the bookkeeping of the
  unclassified mass. \<^verbatim>\<open>tax_units[-2:]\<close> is \<^verbatim>\<open>"st"\<close>; the name is not empty here,
  line 377 has read its first character.
\<close>

definition finish :: "config \<Rightarrow> real \<Rightarrow> real \<Rightarrow> real \<Rightarrow> clade \<Rightarrow> real \<times> clade" where
  "finish cfg sum_ab rat loc_ab c =
     (let ab = (if rat < real_of_int (min_cu_len cfg) \<and> children c \<noteq> [] then sum_ab
                else if loc_ab < sum_ab then sum_ab
                else loc_ab);
          ua = (if ab > sum_ab \<and> children c \<noteq> [] then ab - sum_ab else uncl_abundance c);
          su = (children c = [] \<and> take 1 (name c) \<noteq> ''s'' \<and> take 1 (name c) \<noteq> ''t'')
      in (ab, Clade (name c) (children c) (markers2nreads c) (Some ab) ua su (uncl c)))"

text \<open>
  Lines 328 to 418 for one clade, once the children have been computed and summed to
  \<open>sum_ab\<close>: the active set, the strain rule, the local estimate, the clamp.
\<close>

definition clade_step :: "config \<Rightarrow> taxtree \<Rightarrow> clade list \<Rightarrow> real \<Rightarrow> clade
                            \<Rightarrow> py_error + (real \<times> clade)" where
  "clade_step cfg tr anc sum_ab c =
     (case active_set cfg tr anc c of Inl x \<Rightarrow> Inl x
      | Inr rat_nreads \<Rightarrow>
         (case strain_rule anc c of Inl x \<Rightarrow> Inl x
          | Inr strain \<Rightarrow>
             if strain \<and> too_few_nonzero rat_nreads then Inr (0, set_abundance c 0)
             else (case local_abundance (stat cfg) (quantile cfg) rat_nreads of
                     Inl x \<Rightarrow> Inl x
                   | Inr loc_ab \<Rightarrow> Inr (finish cfg sum_ab (rat_of rat_nreads) loc_ab c))))"

text \<open>
  \<^verbatim>\<open>compute_abundance\<close>: the memoised value if there is one (line 326), otherwise the
  children first (line 327), each with this clade as its father, then the clade
  itself. The result is the returned abundance and the clade with the fields the call
  has assigned, in itself and below. \<open>tr\<close> is the tree the call runs in: the call reads
  its tables, and through \<^verbatim>\<open>taxa2clades\<close> the \<^verbatim>\<open>children\<close> and
  \<^verbatim>\<open>markers2nreads\<close> of other clades, none of which it assigns.
\<close>

fun compute_abundance :: "config \<Rightarrow> taxtree \<Rightarrow> clade list \<Rightarrow> clade
                            \<Rightarrow> py_error + (real \<times> clade)"
  and compute_children :: "config \<Rightarrow> taxtree \<Rightarrow> clade list \<Rightarrow> (string \<times> clade) list
                            \<Rightarrow> py_error + (real \<times> (string \<times> clade) list)" where
  "compute_abundance cfg tr anc (Clade nm chs m2n ab ua su un) =
     (case ab of
        Some a \<Rightarrow> Inr (a, Clade nm chs m2n ab ua su un)
      | None \<Rightarrow>
         (case compute_children cfg tr (Clade nm chs m2n ab ua su un # anc) chs of
            Inl x \<Rightarrow> Inl x
          | Inr (sum_ab, chs') \<Rightarrow>
             clade_step cfg tr anc sum_ab (Clade nm chs' m2n ab ua su un)))"
| "compute_children cfg tr anc [] = Inr (0, [])"
| "compute_children cfg tr anc ((k, c) # rest) =
     (case compute_abundance cfg tr anc c of
        Inl x \<Rightarrow> Inl x
      | Inr (a, c') \<Rightarrow>
         (case compute_children cfg tr anc rest of
            Inl x \<Rightarrow> Inl x
          | Inr (s, rest') \<Rightarrow> Inr (a + s, (k, c') # rest')))"

subsection \<open>Clades reached through the indices of the tree\<close>

text \<open>
  An assignment to a field of the clade an index refers to is a replacement of the
  clade at that path. \<open>update_in\<close> replaces below the first child stored under the key,
  the one \<open>map_of\<close> finds.
\<close>

fun update_at :: "(clade \<Rightarrow> clade) \<Rightarrow> clade \<Rightarrow> path \<Rightarrow> clade"
  and update_in :: "(clade \<Rightarrow> clade) \<Rightarrow> (string \<times> clade) list \<Rightarrow> string \<Rightarrow> path
                      \<Rightarrow> (string \<times> clade) list" where
  "update_at f c [] = f c"
| "update_at f (Clade nm chs m2n ab ua su un) (k # p) =
     Clade nm (update_in f chs k p) m2n ab ua su un"
| "update_in f [] k p = []"
| "update_in f ((k', ch) # rest) k p =
     (if k' = k then (k', update_at f ch p) # rest else (k', ch) # update_in f rest k p)"

text \<open>The child names that the collapsing loop walks through, from a clade downwards.\<close>

fun unary_chain :: "clade \<Rightarrow> path" where
  "unary_chain (Clade nm [(k, c)] m2n ab ua su un) = k # unary_chain c"
| "unary_chain c = []"

definition set_nreads :: "string \<Rightarrow> int \<Rightarrow> clade \<Rightarrow> clade" where
  "set_nreads marker n c =
     Clade (name c) (children c) (dict_set (markers2nreads c) marker n) (abundance c)
           (uncl_abundance c) (subcl_uncl c) (uncl c)"

subsection \<open>\<^verbatim>\<open>TaxTree.add_reads\<close>\<close>

text \<open>
  Lines 480 to 489: the kingdom filters, on the full name of the marker's clade.
  The four flags are \<^verbatim>\<open>ignore_viruses\<close>, \<^verbatim>\<open>ignore_eukaryotes\<close>, \<^verbatim>\<open>ignore_bacteria\<close>
  and \<^verbatim>\<open>ignore_archaea\<close>.
\<close>

definition ignored :: "string \<Rightarrow> bool \<Rightarrow> bool \<Rightarrow> bool \<Rightarrow> bool \<Rightarrow> bool" where
  "ignored cn ignore_viruses ignore_eukaryotes ignore_bacteria ignore_archaea =
     ((ignore_viruses \<or> ignore_eukaryotes \<or> ignore_bacteria \<or> ignore_archaea)
      \<and> ((ignore_viruses \<and> startswith cn ''k__Viruses'')
         \<or> (ignore_eukaryotes \<and> startswith cn ''k__Eukaryotes'')
         \<or> (ignore_archaea \<and> startswith cn ''k__Archaea'')
         \<or> (ignore_bacteria \<and> startswith cn ''k__Bacteria'')))"

text \<open>
  The result is the returned string, empty for a dropped marker, and the tree after
  the call. The names of the clades do not change, so the full name of the clade
  that receives the count is read in the tree before the call.
\<close>

definition add_reads :: "taxtree \<Rightarrow> string \<Rightarrow> int \<Rightarrow> bool \<Rightarrow> bool \<Rightarrow> bool \<Rightarrow> bool
                           \<Rightarrow> py_error + (string \<times> taxtree)" where
  "add_reads tr marker n ignore_viruses ignore_eukaryotes ignore_bacteria ignore_archaea =
     (case dict_get (markers2clades tr) marker of Inl x \<Rightarrow> Inl x
      | Inr clade \<Rightarrow>
         (case dict_get (all_clades tr) clade of Inl x \<Rightarrow> Inl x
          | Inr p \<Rightarrow>
             (case deref (tree_root tr) p of Inl x \<Rightarrow> Inl x
              | Inr cl \<Rightarrow>
                 if ignored (get_full_name (ancestors_at [] (tree_root tr) p) cl)
                      ignore_viruses ignore_eukaryotes ignore_bacteria ignore_archaea
                 then Inr ([], tr)
                 else
                   (let p' = p @ unary_chain cl
                    in Inr (get_full_name (ancestors_at [] (tree_root tr) p') (collapse cl),
                            tr\<lparr>tree_root :=
                                 update_at (set_nreads marker n) (tree_root tr) p'\<rparr>)))))"

subsection \<open>\<^verbatim>\<open>TaxTree.__init__\<close>\<close>

text \<open>
  The marker table of the database: per marker its length (\<^verbatim>\<open>'len'\<close>), the name of
  its clade (\<^verbatim>\<open>'clade'\<close>) and its extended set (\<^verbatim>\<open>'ext'\<close>).
  \<^verbatim>\<open>markers_to_exclude\<close> is the constant of line 57.
\<close>

record marker =
  len :: int
  clade_name :: string
  ext :: "string list"

definition markers_to_exclude :: "string list" where
  "markers_to_exclude = [''NC_001782.1'']"

text \<open>\<^verbatim>\<open>TaxClade(name)\<close> and \<^verbatim>\<open>add_child\<close>.\<close>

definition TaxClade :: "string \<Rightarrow> clade" where
  "TaxClade nm = Clade nm [] [] None 0 False False"

definition add_child :: "string \<Rightarrow> clade \<Rightarrow> clade" where
  "add_child nm c =
     Clade (name c) (dict_set (children c) nm (TaxClade nm)) (markers2nreads c)
           (abundance c) (uncl_abundance c) (subcl_uncl c) (uncl c)"

text \<open>\<^verbatim>\<open>l.strip()\<close>: the line without the white space at its ends.\<close>

definition is_space :: "char \<Rightarrow> bool" where
  "is_space c = (c \<in> set [CHR '' '', CHR 0x09, CHR 0x0A, CHR 0x0B, CHR 0x0C, CHR 0x0D])"

definition py_strip :: "string \<Rightarrow> string" where
  "py_strip s = rev (dropWhile is_space (rev (dropWhile is_space s)))"

text \<open>
  Lines 445 to 451: the levels of one lineage, from the clade at the path \<open>father\<close>
  downwards. A new clade is entered in \<^verbatim>\<open>all_clades\<close> under its bare name; a level
  of rank \<^verbatim>\<open>t\<close> enters its father in \<^verbatim>\<open>taxa2clades\<close> under the taxon identifier.
\<close>

fun add_lineage :: "taxtree \<Rightarrow> path \<Rightarrow> string list \<Rightarrow> py_error + taxtree" where
  "add_lineage tr father [] = Inr tr"
| "add_lineage tr father (clade_lev # rest) =
     (case deref (tree_root tr) father of Inl x \<Rightarrow> Inl x
      | Inr f \<Rightarrow>
         (let tr1 = (if map_of (children f) clade_lev = None
                     then tr\<lparr>tree_root := update_at (add_child clade_lev) (tree_root tr) father,
                             all_clades := dict_set (all_clades tr) clade_lev
                                             (father @ [clade_lev])\<rparr>
                     else tr)
          in case clade_lev of
               [] \<Rightarrow> Inl IndexError
             | c0 # cs \<Rightarrow>
                add_lineage
                  (if c0 = CHR ''t''
                   then tr1\<lparr>taxa2clades := dict_set (taxa2clades tr1) (drop 3 clade_lev) father\<rparr>
                   else tr1)
                  (father @ [clade_lev]) rest))"

fun add_lineages :: "taxtree \<Rightarrow> string list \<Rightarrow> py_error + taxtree" where
  "add_lineages tr [] = Inr tr"
| "add_lineages tr (l # ls) =
     (case add_lineage tr [] (py_split (py_strip l) ''|'') of Inl x \<Rightarrow> Inl x
      | Inr tr' \<Rightarrow> add_lineages tr' ls)"

text \<open>
  Lines 454 to 460: the markers. \<^verbatim>\<open>add_reads(k, 0)\<close> runs before the extended set of
  the marker is stored.
\<close>

fun add_markers :: "taxtree \<Rightarrow> (string \<times> marker) list \<Rightarrow> py_error + taxtree" where
  "add_markers tr [] = Inr tr"
| "add_markers tr ((k, p) # rest) =
     (if k \<in> set markers_to_exclude then add_markers tr rest
      else
        (case add_reads (tr\<lparr>markers2lens := dict_set (markers2lens tr) k (len p),
                            markers2clades := dict_set (markers2clades tr) k (clade_name p)\<rparr>)
                k 0 False False False False of
           Inl x \<Rightarrow> Inl x
         | Inr (s, tr') \<Rightarrow>
            add_markers (tr'\<lparr>markers2exts := dict_set (markers2exts tr') k (ext p)\<rparr>) rest))"

definition TaxTree :: "string list \<Rightarrow> (string \<times> marker) list \<Rightarrow> py_error + taxtree" where
  "TaxTree taxonomy markers =
     (case add_lineages
             \<lparr>tree_root = TaxClade ''root'', all_clades = [], markers2lens = [],
              markers2clades = [], taxa2clades = [], markers2exts = []\<rparr> taxonomy of
        Inl x \<Rightarrow> Inl x
      | Inr tr \<Rightarrow> add_markers tr markers)"

text \<open>
  The loop of lines 710 to 717 of the script: the counts of the mapped markers are
  recorded in the tree, markers the database does not know are skipped. No kingdom is
  ignored here.
\<close>

fun record_counts :: "taxtree \<Rightarrow> (string \<times> int) list \<Rightarrow> py_error + taxtree" where
  "record_counts tr [] = Inr tr"
| "record_counts tr ((m, n) # rest) =
     (if map_of (markers2lens tr) m = None then record_counts tr rest
      else (case add_reads tr m n False False False False of Inl x \<Rightarrow> Inl x
            | Inr (s, tr') \<Rightarrow> record_counts tr' rest))"

text \<open>A database and a mapping, loaded: the tree the computations start from.\<close>

definition loaded :: "string list \<Rightarrow> (string \<times> marker) list \<Rightarrow> (string \<times> int) list
                        \<Rightarrow> py_error + taxtree" where
  "loaded taxonomy markers counts =
     (case TaxTree taxonomy markers of Inl x \<Rightarrow> Inl x | Inr tr \<Rightarrow> record_counts tr counts)"

subsection \<open>\<^verbatim>\<open>get_all_abundances\<close>\<close>

text \<open>\<^verbatim>\<open>tax_units = "kpcofgst"\<close>, \<^verbatim>\<open>tax_units.index(c)\<close> and \<^verbatim>\<open>tax_units[i]\<close>.\<close>

definition tax_units :: string where
  "tax_units = ''kpcofgst''"

fun index_of :: "char \<Rightarrow> string \<Rightarrow> nat option" where
  "index_of c [] = None"
| "index_of c (x # xs) = (if x = c then Some 0 else map_option Suc (index_of c xs))"

definition tax_index :: "char \<Rightarrow> py_error + nat" where
  "tax_index c = (case index_of c tax_units of None \<Rightarrow> Inl ValueError | Some i \<Rightarrow> Inr i)"

text \<open>
  The walk over a clade and everything below it. The values are the \<^verbatim>\<open>abundance\<close>
  fields as they are, \<^verbatim>\<open>None\<close> included. Line 423 raises on a clade without
  children, line 426 on a name that is empty or whose first letter is no rank, line
  427 on the last rank.
\<close>

fun get_all_abundances :: "clade \<Rightarrow> py_error + (string \<times> real option) list"
  and get_all_abundances_of ::
        "(string \<times> clade) list \<Rightarrow> py_error + (string \<times> real option) list" where
  "get_all_abundances (Clade nm chs m2n ab ua su un) =
     (case (if ua > 0 then
              (case chs of
                 [] \<Rightarrow> Inl IndexError
               | (k, ch) # rest \<Rightarrow>
                  Inr [(take 3 (name ch) @ drop 3 nm @ ''_unclassified'', Some ua)])
            else Inr []) of
        Inl x \<Rightarrow> Inl x
      | Inr r1 \<Rightarrow>
         (case (if su then
                  (case nm of
                     [] \<Rightarrow> Inl IndexError
                   | c0 # nm' \<Rightarrow>
                      if c0 \<noteq> CHR ''s'' then
                        (case tax_index c0 of Inl x \<Rightarrow> Inl x
                         | Inr cind \<Rightarrow>
                            (case py_index tax_units (int cind + 1) of Inl x \<Rightarrow> Inl x
                             | Inr u \<Rightarrow> Inr [(u # nm' @ ''_unclassified'', ab)]))
                      else Inr [])
                else Inr []) of
            Inl x \<Rightarrow> Inl x
          | Inr r2 \<Rightarrow>
             (case get_all_abundances_of chs of Inl x \<Rightarrow> Inl x
              | Inr r3 \<Rightarrow> Inr ((nm, ab) # r1 @ r2 @ r3))))"
| "get_all_abundances_of [] = Inr []"
| "get_all_abundances_of ((k, c) # rest) =
     (case get_all_abundances c of Inl x \<Rightarrow> Inl x
      | Inr r \<Rightarrow>
         (case get_all_abundances_of rest of Inl x \<Rightarrow> Inl x | Inr rs \<Rightarrow> Inr (r @ rs)))"

subsection \<open>\<^verbatim>\<open>TaxTree.relative_abundances\<close>\<close>

text \<open>\<^verbatim>\<open>self.all_clades[cl].get_full_name()\<close>.\<close>

definition full_name_of :: "taxtree \<Rightarrow> string \<Rightarrow> py_error + string" where
  "full_name_of tr cl =
     (case dict_get (all_clades tr) cl of Inl x \<Rightarrow> Inl x
      | Inr p \<Rightarrow>
         (case deref (tree_root tr) p of Inl x \<Rightarrow> Inl x
          | Inr c \<Rightarrow> Inr (get_full_name (ancestors_at [] (tree_root tr) p) c)))"

text \<open>Lines 529 to 537: the name an entry gets when no rank filter is given.\<close>

definition unfiltered_name :: "taxtree \<Rightarrow> string \<Rightarrow> py_error + string" where
  "unfiltered_name tr cl =
     (if map_of (all_clades tr) cl = None then
        (case cl of
           [] \<Rightarrow> Inl IndexError
         | c0 # cl' \<Rightarrow>
            (case tax_index c0 of Inl x \<Rightarrow> Inl x
             | Inr to \<Rightarrow>
                (case py_index tax_units (int to - 1) of Inl x \<Rightarrow> Inl x
                 | Inr t \<Rightarrow>
                    (case full_name_of tr (t # drop 1 (hd (py_split cl ''_unclassified''))) of
                       Inl x \<Rightarrow> Inl x
                     | Inr fn \<Rightarrow>
                        (let spl = py_split fn ''|'' in
                         Inr (str_join ''|''
                                (spl @ [(tax_units ! to) # drop 1 (last spl)
                                          @ ''_unclassified''])))))))
      else full_name_of tr cl)"

text \<open>
  Lines 527 to 540 for the entries of one kingdom: each entry is renamed or filtered
  and stored in \<^verbatim>\<open>cl2ab\<close>. \<^verbatim>\<open>not tax_lev\<close> holds for \<^verbatim>\<open>None\<close> and for the empty
  string.
\<close>

definition no_filter :: "string option \<Rightarrow> bool" where
  "no_filter tax_lev = (case tax_lev of None \<Rightarrow> True | Some l \<Rightarrow> l = [])"

definition rank_prefix :: "string option \<Rightarrow> string" where
  "rank_prefix tax_lev = (case tax_lev of None \<Rightarrow> [] | Some l \<Rightarrow> l)"

fun collect :: "taxtree \<Rightarrow> string option \<Rightarrow> (string \<times> real option) list
                  \<Rightarrow> (string \<times> real option) list \<Rightarrow> py_error + (string \<times> real option) list" where
  "collect tr tax_lev cl2ab [] = Inr cl2ab"
| "collect tr tax_lev cl2ab ((cl, ab) # rest) =
     (if no_filter tax_lev then
        (case unfiltered_name tr cl of Inl x \<Rightarrow> Inl x
         | Inr cl' \<Rightarrow> collect tr tax_lev (dict_set cl2ab cl' ab) rest)
      else if \<not> startswith cl (rank_prefix tax_lev) then collect tr tax_lev cl2ab rest
      else collect tr tax_lev (dict_set cl2ab cl ab) rest)"

text \<open>
  Lines 519 and 520: the kingdom clades, in the order of \<^verbatim>\<open>all_clades\<close>. \<^verbatim>\<open>and\<close>
  reads \<^verbatim>\<open>v.uncl\<close> only for a key that starts with \<^verbatim>\<open>k__\<close>.
\<close>

fun kingdoms :: "taxtree \<Rightarrow> (string \<times> path) list \<Rightarrow> py_error + (string \<times> path) list" where
  "kingdoms tr [] = Inr []"
| "kingdoms tr ((k, p) # rest) =
     (if startswith k ''k__'' then
        (case deref (tree_root tr) p of Inl x \<Rightarrow> Inl x
         | Inr v \<Rightarrow>
            (case kingdoms tr rest of Inl x \<Rightarrow> Inl x
             | Inr ks \<Rightarrow> Inr (if \<not> uncl v then (k, p) # ks else ks)))
      else kingdoms tr rest)"

text \<open>
  \<^verbatim>\<open>v.compute_abundance()\<close> for the clade an index refers to: the call runs on the
  clade at the path, with its ancestors as father chain, and the clade it leaves
  behind takes its place in the tree.
\<close>

definition compute_at :: "config \<Rightarrow> taxtree \<Rightarrow> path \<Rightarrow> py_error + (real \<times> taxtree)" where
  "compute_at cfg tr p =
     (case deref (tree_root tr) p of Inl x \<Rightarrow> Inl x
      | Inr v \<Rightarrow>
         (case compute_abundance cfg tr (ancestors_at [] (tree_root tr) p) v of
            Inl x \<Rightarrow> Inl x
          | Inr (a, v') \<Rightarrow>
             Inr (a, tr\<lparr>tree_root := update_at (\<lambda>old. v') (tree_root tr) p\<rparr>)))"

text \<open>Lines 523 and 524: \<^verbatim>\<open>tot_ab\<close>.\<close>

fun total_abundance :: "config \<Rightarrow> taxtree \<Rightarrow> real \<Rightarrow> (string \<times> path) list
                          \<Rightarrow> py_error + (real \<times> taxtree)" where
  "total_abundance cfg tr tot_ab [] = Inr (tot_ab, tr)"
| "total_abundance cfg tr tot_ab ((k, p) # rest) =
     (case compute_at cfg tr p of Inl x \<Rightarrow> Inl x
      | Inr (a, tr') \<Rightarrow> total_abundance cfg tr' (tot_ab + a) rest)"

text \<open>Lines 526 to 540: \<^verbatim>\<open>cl2ab\<close>.\<close>

fun collect_all :: "taxtree \<Rightarrow> string option \<Rightarrow> (string \<times> real option) list
                      \<Rightarrow> (string \<times> path) list \<Rightarrow> py_error + (string \<times> real option) list" where
  "collect_all tr tax_lev cl2ab [] = Inr cl2ab"
| "collect_all tr tax_lev cl2ab ((k, p) # rest) =
     (case deref (tree_root tr) p of Inl x \<Rightarrow> Inl x
      | Inr v \<Rightarrow>
         (case get_all_abundances v of Inl x \<Rightarrow> Inl x
          | Inr entries \<Rightarrow>
             (case collect tr tax_lev cl2ab entries of Inl x \<Rightarrow> Inl x
              | Inr cl2ab' \<Rightarrow> collect_all tr tax_lev cl2ab' rest)))"

text \<open>
  Line 542: \<^verbatim>\<open>float(v) / tot_ab if tot_ab else 0.0\<close> for every entry; \<^verbatim>\<open>float(None)\<close>
  raises, and is evaluated only when \<^verbatim>\<open>tot_ab\<close> is not zero.
\<close>

fun normalise :: "real \<Rightarrow> (string \<times> real option) list \<Rightarrow> py_error + (string \<times> real) list" where
  "normalise tot_ab [] = Inr []"
| "normalise tot_ab ((k, v) # rest) =
     (case (if tot_ab \<noteq> 0
            then (case v of None \<Rightarrow> Inl TypeError | Some a \<Rightarrow> Inr (a / tot_ab))
            else Inr 0) of
        Inl x \<Rightarrow> Inl x
      | Inr r \<Rightarrow>
         (case normalise tot_ab rest of Inl x \<Rightarrow> Inl x | Inr rs \<Rightarrow> Inr ((k, r) # rs)))"

text \<open>Lines 519 to 542: \<^verbatim>\<open>ret_d\<close> before the unclassified entry is stored.\<close>

definition kept_abundances :: "config \<Rightarrow> taxtree \<Rightarrow> string option
                                 \<Rightarrow> py_error + ((string \<times> real) list \<times> taxtree)" where
  "kept_abundances cfg tr tax_lev =
     (case kingdoms tr (all_clades tr) of Inl x \<Rightarrow> Inl x
      | Inr cl2ab_n \<Rightarrow>
         (case total_abundance cfg tr 0 cl2ab_n of Inl x \<Rightarrow> Inl x
          | Inr (tot_ab, tr') \<Rightarrow>
             (case collect_all tr' tax_lev [] cl2ab_n of Inl x \<Rightarrow> Inl x
              | Inr cl2ab \<Rightarrow>
                 (case normalise tot_ab cl2ab of Inl x \<Rightarrow> Inl x
                  | Inr ret_d \<Rightarrow> Inr (ret_d, tr')))))"

text \<open>
  \<^verbatim>\<open>relative_abundances\<close>: with a rank filter, lines 543 and 544 store the residual
  under the key \<^verbatim>\<open>tax_lev+"unclassified"\<close>.
\<close>

definition relative_abundances :: "config \<Rightarrow> taxtree \<Rightarrow> string option
                                     \<Rightarrow> py_error + ((string \<times> real) list \<times> taxtree)" where
  "relative_abundances cfg tr tax_lev =
     (case kept_abundances cfg tr tax_lev of Inl x \<Rightarrow> Inl x
      | Inr (ret_d, tr') \<Rightarrow>
         if \<not> no_filter tax_lev
         then Inr (dict_set ret_d (rank_prefix tax_lev @ ''unclassified'')
                     (1 - sum_list (map snd ret_d)), tr')
         else Inr (ret_d, tr'))"

subsection \<open>The relative-abundance table (lines 728 to 736)\<close>

text \<open>
  \<^verbatim>\<open>round(x, 5)\<close> on exact reals, halves away from zero as Python 2 rounds them.
\<close>

definition py_round5 :: "real \<Rightarrow> real" where
  "py_round5 x =
     (if 0 \<le> x then real_of_int \<lfloor>x * 100000 + 1 / 2\<rfloor> / 100000
      else - (real_of_int \<lfloor>- x * 100000 + 1 / 2\<rfloor> / 100000))"

definition outpred :: "(string \<times> real) list \<Rightarrow> (string \<times> real) list" where
  "outpred cl2ab = map (\<lambda>(k, v). (k, py_round5 (v * 100))) (filter (\<lambda>(k, v). v > 0) cl2ab)"

text \<open>The sort key of line 733.\<close>

definition row_key :: "string \<times> real \<Rightarrow> real" where
  "row_key x = snd x + 100 * (8 - real (str_count (fst x) CHR ''|''))"

text \<open>
  \<^verbatim>\<open>sorted(outpred, reverse=True, key=...)\<close>: descending in the key, and stable, rows
  with equal keys stay in their order; that is the stable ascending sort on the
  negated key. The rows are the lines written, as pairs of name and value.
\<close>

definition rel_ab_rows :: "(string \<times> real) list \<Rightarrow> (string \<times> real) list" where
  "rel_ab_rows cl2ab =
     (let pred = outpred cl2ab
      in if pred \<noteq> [] then sort_key (\<lambda>x. - row_key x) pred
         else [(''unclassified'', 100)])"

section \<open>Predicates and example inputs the properties are stated with\<close>

subsection \<open>The state of the memoised abundances\<close>

text \<open>
  The sum of the \<^verbatim>\<open>abundance\<close> fields of the children, \<open>None\<close> when one of them has
  not been computed.
\<close>

fun children_sum :: "(string \<times> clade) list \<Rightarrow> real option" where
  "children_sum [] = Some 0"
| "children_sum ((k, c) # rest) =
     (case abundance c of None \<Rightarrow> None
      | Some a \<Rightarrow> (case children_sum rest of None \<Rightarrow> None | Some s \<Rightarrow> Some (a + s)))"

text \<open>Monotonicity at one clade, and at a clade and every clade below it.\<close>

definition monotone_here :: "clade \<Rightarrow> bool" where
  "monotone_here c =
     (case abundance c of None \<Rightarrow> False
      | Some a \<Rightarrow> (case children_sum (children c) of None \<Rightarrow> False | Some s \<Rightarrow> s \<le> a))"

fun monotone :: "clade \<Rightarrow> bool"
  and monotone_all :: "(string \<times> clade) list \<Rightarrow> bool" where
  "monotone (Clade nm chs m2n ab ua su un) =
     (monotone_here (Clade nm chs m2n ab ua su un) \<and> monotone_all chs)"
| "monotone_all [] = True"
| "monotone_all ((k, c) # rest) = (monotone c \<and> monotone_all rest)"

text \<open>
  The states \<^verbatim>\<open>compute_abundance\<close> produces and starts from: a clade that holds an
  abundance got it from an earlier call, which computed everything below it. A tree
  just built, with no abundance anywhere, is such a state.
\<close>

fun consistent :: "clade \<Rightarrow> bool"
  and consistent_all :: "(string \<times> clade) list \<Rightarrow> bool" where
  "consistent (Clade nm chs m2n ab ua su un) =
     (if ab = None then consistent_all chs else monotone (Clade nm chs m2n ab ua su un))"
| "consistent_all [] = True"
| "consistent_all ((k, c) # rest) = (consistent c \<and> consistent_all rest)"

text \<open>
  \<open>computed c\<close>: the clade and every clade below it hold an abundance. \<open>memo_closed c\<close>:
  wherever a clade holds an abundance, so does everything below it, as it is in a tree
  whose abundances were all assigned by \<^verbatim>\<open>compute_abundance\<close>.
\<close>

fun computed :: "clade \<Rightarrow> bool"
  and computed_all :: "(string \<times> clade) list \<Rightarrow> bool" where
  "computed (Clade nm chs m2n ab ua su un) = (ab \<noteq> None \<and> computed_all chs)"
| "computed_all [] = True"
| "computed_all ((k, c) # rest) = (computed c \<and> computed_all rest)"

fun memo_closed :: "clade \<Rightarrow> bool"
  and memo_closed_all :: "(string \<times> clade) list \<Rightarrow> bool" where
  "memo_closed (Clade nm chs m2n ab ua su un) =
     (if ab = None then memo_closed_all chs else computed (Clade nm chs m2n ab ua su un))"
| "memo_closed_all [] = True"
| "memo_closed_all ((k, c) # rest) = (memo_closed c \<and> memo_closed_all rest)"

text \<open>
  A lineage of a valid marker database ends at its strain: a clade of rank \<^verbatim>\<open>t\<close> has
  no children.
\<close>

fun strains_terminal :: "clade \<Rightarrow> bool"
  and strains_terminal_all :: "(string \<times> clade) list \<Rightarrow> bool" where
  "strains_terminal (Clade nm chs m2n ab ua su un) =
     ((if startswith nm ''t'' then chs = [] else True) \<and> strains_terminal_all chs)"
| "strains_terminal_all [] = True"
| "strains_terminal_all ((k, c) # rest) = (strains_terminal c \<and> strains_terminal_all rest)"

text \<open>
  \<open>reads_changed c c2\<close>: \<open>c2\<close> is \<open>c\<close> after any number of assignments to
  \<^verbatim>\<open>markers2nreads\<close>, in the clade or below it; nothing else differs.
\<close>

fun reads_changed :: "clade \<Rightarrow> clade \<Rightarrow> bool"
  and reads_changed_all :: "(string \<times> clade) list \<Rightarrow> (string \<times> clade) list \<Rightarrow> bool" where
  "reads_changed (Clade nm chs m2n ab ua su un) c2 =
     (name c2 = nm \<and> abundance c2 = ab \<and> uncl_abundance c2 = ua \<and> subcl_uncl c2 = su
      \<and> uncl c2 = un \<and> reads_changed_all chs (children c2))"
| "reads_changed_all [] ys = (ys = [])"
| "reads_changed_all ((k, c) # rest) ys =
     (case ys of [] \<Rightarrow> False
      | (k2, c2) # rest2 \<Rightarrow> k2 = k \<and> reads_changed c c2 \<and> reads_changed_all rest rest2)"

subsection \<open>An example tree\<close>

text \<open>
  One kingdom, one species with two strains, one marker of length 1000 on each strain,
  five reads on the first and none on the second.
\<close>

definition new_clade :: "string \<Rightarrow> (string \<times> clade) list \<Rightarrow> (string \<times> int) list \<Rightarrow> clade" where
  "new_clade nm chs m2n = Clade nm chs m2n None 0 False False"

definition ex_root :: clade where
  "ex_root =
     new_clade ''root''
       [(''k__A'', new_clade ''k__A''
          [(''s__S'', new_clade ''s__S''
             [(''t__X'', new_clade ''t__X'' [] [(''m1'', 5)]),
              (''t__Y'', new_clade ''t__Y'' [] [(''m2'', 0)])] [])] [])] []"

definition ex_tree :: taxtree where
  "ex_tree =
     \<lparr>tree_root = ex_root,
      all_clades = [(''k__A'', [''k__A'']), (''s__S'', [''k__A'', ''s__S'']),
                    (''t__X'', [''k__A'', ''s__S'', ''t__X'']),
                    (''t__Y'', [''k__A'', ''s__S'', ''t__Y''])],
      markers2lens = [(''m1'', 1000), (''m2'', 1000)],
      markers2clades = [(''m1'', ''t__X''), (''m2'', ''t__Y'')],
      taxa2clades = [(''X'', [''k__A'', ''s__S'']), (''Y'', [''k__A'', ''s__S''])],
      markers2exts = [(''m1'', [''Y'']), (''m2'', [])]\<rparr>"

definition ex_config :: config where
  "ex_config = \<lparr>stat = tavg_g, quantile = 1 / 10, min_cu_len = 2000, avoid_disqm = False\<rparr>"

text \<open>The example tree after \<^verbatim>\<open>compute_abundance\<close> on its root.\<close>

definition ex_species_computed :: clade where
  "ex_species_computed =
     Clade ''s__S''
       [(''t__X'', Clade ''t__X'' [] [(''m1'', 5)] (Some (1 / 200)) 0 False False),
        (''t__Y'', Clade ''t__Y'' [] [(''m2'', 0)] (Some 0) 0 False False)]
       [] (Some (1 / 200)) 0 False False"

definition ex_root_computed :: clade where
  "ex_root_computed =
     Clade ''root''
       [(''k__A'', Clade ''k__A'' [(''s__S'', ex_species_computed)]
                     [] (Some (1 / 200)) 0 False False)]
       [] (Some (1 / 200)) 0 False False"

text \<open>The computed example after seven reads are stored for the marker of the second strain.\<close>

definition ex_root_mutated :: clade where
  "ex_root_mutated =
     update_at (set_nreads ''m2'' 7) ex_root_computed [''k__A'', ''s__S'', ''t__Y'']"

subsection \<open>The order of the table\<close>

text \<open>The depth of a row: the number of \<^verbatim>\<open>|\<close> in its name.\<close>

definition depth :: "string \<times> real \<Rightarrow> nat" where
  "depth x = str_count (fst x) CHR ''|''"

text \<open>
  The order as the specification words it: descending by abundance, rows of equal
  abundance with the shallower one first.
\<close>

definition claimed_order :: "(string \<times> real) list \<Rightarrow> bool" where
  "claimed_order rows =
     sorted_wrt (\<lambda>x y. snd x > snd y \<or> (snd x = snd y \<and> depth x \<le> depth y)) rows"

text \<open>
  Relative abundances of a sample with one kingdom, two phyla and a class below the
  first phylum.
\<close>

definition ex_cl2ab :: "(string \<times> real) list" where
  "ex_cl2ab = [(''k__A'', 1), (''k__A|p__B'', 6 / 10), (''k__A|p__C'', 4 / 10),
               (''k__A|p__B|c__D'', 6 / 10)]"

subsection \<open>Modes that coincide without trimming\<close>

text \<open>The pairs of a trimming or winsorising mode and the plain mode it falls back to.\<close>

definition zero_trim_pairs :: "(stat_mode \<times> stat_mode) list" where
  "zero_trim_pairs = [(tavg_g, avg_g), (wavg_g, avg_g), (tavg_l, avg_l), (wavg_l, avg_l)]"

text \<open>The value a call returns, without the state it leaves.\<close>

definition returned :: "py_error + (real \<times> clade) \<Rightarrow> py_error + real" where
  "returned r = (case r of Inl x \<Rightarrow> Inl x | Inr (v, c) \<Rightarrow> Inr v)"

text \<open>
  A kingdom with one marker without reads, and below it two species: one with ten
  markers of length 100, one of them with 100 reads, and one with a single marker
  without reads.
\<close>

definition ex_species10 :: clade where
  "ex_species10 =
     new_clade ''s__S'' []
       [(''a0'', 0), (''a1'', 0), (''a2'', 0), (''a3'', 0), (''a4'', 0),
        (''a5'', 0), (''a6'', 0), (''a7'', 0), (''a8'', 0), (''a9'', 100)]"

definition ex_kingdom10 :: clade where
  "ex_kingdom10 =
     new_clade ''k__K''
       [(''s__S'', ex_species10), (''s__T'', new_clade ''s__T'' [] [(''b0'', 0)])]
       [(''pm'', 0)]"

definition ex_tree10 :: taxtree where
  "ex_tree10 =
     \<lparr>tree_root = new_clade ''root'' [(''k__K'', ex_kingdom10)] [],
      all_clades = [(''k__K'', [''k__K'']), (''s__S'', [''k__K'', ''s__S'']),
                    (''s__T'', [''k__K'', ''s__T''])],
      markers2lens = [(''pm'', 1000), (''b0'', 100), (''a0'', 100), (''a1'', 100), (''a2'', 100),
                      (''a3'', 100), (''a4'', 100), (''a5'', 100), (''a6'', 100),
                      (''a7'', 100), (''a8'', 100), (''a9'', 100)],
      markers2clades = [(''pm'', ''k__K''), (''b0'', ''s__T''), (''a0'', ''s__S''), (''a1'', ''s__S''),
                        (''a2'', ''s__S''), (''a3'', ''s__S''), (''a4'', ''s__S''),
                        (''a5'', ''s__S''), (''a6'', ''s__S''), (''a7'', ''s__S''),
                        (''a8'', ''s__S''), (''a9'', ''s__S'')],
      taxa2clades = [],
      markers2exts = [(''pm'', []), (''b0'', []), (''a0'', []), (''a1'', []), (''a2'', []),
                      (''a3'', []), (''a4'', []), (''a5'', []), (''a6'', []), (''a7'', []),
                      (''a8'', []), (''a9'', [])]\<rparr>"

definition ex_config10 :: config where
  "ex_config10 = \<lparr>stat = tavg_g, quantile = 1 / 10, min_cu_len = 2000, avoid_disqm = True\<rparr>"

text \<open>The first strain of the example tree, and its ancestors.\<close>

definition ex_strain :: clade where
  "ex_strain = new_clade ''t__X'' [] [(''m1'', 5)]"

definition ex_strain_anc :: "clade list" where
  "ex_strain_anc = ancestors_at [] ex_root [''k__A'', ''s__S'', ''t__X'']"

text \<open>The second strain of the example tree; its ancestors are those of the first.\<close>

definition ex_strain_y :: clade where
  "ex_strain_y = new_clade ''t__Y'' [] [(''m2'', 0)]"

subsection \<open>A tree with a unary chain and a viral kingdom\<close>

text \<open>
  The marker \<open>mB\<close> belongs to the genus, whose only child is a species; the marker
  \<open>mV\<close> belongs to a viral species. Both have the count 0 that the construction of the
  tree records.
\<close>

definition ex_genus :: clade where
  "ex_genus = new_clade ''g__G'' [(''s__One'', new_clade ''s__One'' [] [(''mB'', 0)])] []"

definition ex_chain_root :: clade where
  "ex_chain_root =
     new_clade ''root''
       [(''k__Bacteria'', new_clade ''k__Bacteria'' [(''g__G'', ex_genus)] []),
        (''k__Viruses'', new_clade ''k__Viruses''
           [(''s__V'', new_clade ''s__V'' [] [(''mV'', 0)])] [])] []"

definition ex_chain_tree :: taxtree where
  "ex_chain_tree =
     \<lparr>tree_root = ex_chain_root,
      all_clades = [(''k__Bacteria'', [''k__Bacteria'']),
                    (''g__G'', [''k__Bacteria'', ''g__G'']),
                    (''s__One'', [''k__Bacteria'', ''g__G'', ''s__One'']),
                    (''k__Viruses'', [''k__Viruses'']),
                    (''s__V'', [''k__Viruses'', ''s__V''])],
      markers2lens = [(''mB'', 500), (''mV'', 300)],
      markers2clades = [(''mB'', ''g__G''), (''mV'', ''s__V'')],
      taxa2clades = [],
      markers2exts = [(''mB'', []), (''mV'', [])]\<rparr>"

subsection \<open>A taxonomy with a species named like the residual entry\<close>

text \<open>The table a call returns, without the tree it leaves.\<close>

definition table_of :: "py_error + ((string \<times> real) list \<times> taxtree)
                          \<Rightarrow> py_error + (string \<times> real) list" where
  "table_of r = (case r of Inl x \<Rightarrow> Inl x | Inr (d, t) \<Rightarrow> Inr d)"

text \<open>
  The lineage \<^verbatim>\<open>k__Bacteria|s__unclassified\<close> with one marker of length 1000 and five
  reads.
\<close>

definition ex_uncl_tree :: taxtree where
  "ex_uncl_tree =
     \<lparr>tree_root =
        new_clade ''root''
          [(''k__Bacteria'', new_clade ''k__Bacteria''
              [(''s__unclassified'', new_clade ''s__unclassified'' [] [(''u1'', 5)])] [])] [],
      all_clades = [(''k__Bacteria'', [''k__Bacteria'']),
                    (''s__unclassified'', [''k__Bacteria'', ''s__unclassified''])],
      markers2lens = [(''u1'', 1000)],
      markers2clades = [(''u1'', ''s__unclassified'')],
      taxa2clades = [],
      markers2exts = [(''u1'', [])]\<rparr>"

subsection \<open>Disambiguation, as a criterion on one marker\<close>

text \<open>\<^verbatim>\<open>self.taxa2clades[e]\<close>: the clade a taxon of an extended set refers to.\<close>

definition ext_clade :: "taxtree \<Rightarrow> string \<Rightarrow> py_error + clade" where
  "ext_clade tr e =
     (case dict_get (taxa2clades tr) e of Inl x \<Rightarrow> Inl x
      | Inr p \<Rightarrow> deref (tree_root tr) p)"

text \<open>
  More than 0.33 of the counts are positive; false for no counts at all, where there
  is no fraction.
\<close>

definition over_third :: "(string \<times> int) list \<Rightarrow> bool" where
  "over_third m2nr =
     (m2nr \<noteq> [] \<and> real (length (filter (\<lambda>(m, v). 0 < v) m2nr)) / real (length m2nr) > 33 / 100)"

text \<open>
  The criterion the code applies to a marker: some taxon of its extended set refers to
  a clade that, collapsed down its unary chain, has more than 0.33 of all the markers
  recorded on it with reads.
\<close>

definition flagged :: "taxtree \<Rightarrow> string \<Rightarrow> bool" where
  "flagged tr m =
     (case map_of (markers2exts tr) m of None \<Rightarrow> False
      | Some es \<Rightarrow>
         list_ex (\<lambda>e. case ext_clade tr e of Inl x \<Rightarrow> False
                      | Inr toclade \<Rightarrow> over_third (markers2nreads (collapse toclade))) es)"

text \<open>
  The criterion as the specification words it: the fraction is taken over the other
  markers of the collapsed clade, the marker under test left out.
\<close>

definition spec_flagged :: "taxtree \<Rightarrow> string \<Rightarrow> bool" where
  "spec_flagged tr m =
     (case map_of (markers2exts tr) m of None \<Rightarrow> False
      | Some es \<Rightarrow>
         list_ex (\<lambda>e. case ext_clade tr e of Inl x \<Rightarrow> False
                      | Inr toclade \<Rightarrow>
                         over_third (filter (\<lambda>(m', v). m' \<noteq> m)
                                       (markers2nreads (collapse toclade)))) es)"

text \<open>The marker is recorded on none of the collapsed clades of its extended set.\<close>

definition not_on_exts :: "taxtree \<Rightarrow> string \<Rightarrow> bool" where
  "not_on_exts tr m =
     (case map_of (markers2exts tr) m of None \<Rightarrow> True
      | Some es \<Rightarrow>
         list_all (\<lambda>e. case ext_clade tr e of Inl x \<Rightarrow> True
                       | Inr toclade \<Rightarrow> map_of (markers2nreads (collapse toclade)) m = None) es)"

text \<open>
  The restoration as the specification words it: the removed markers with the lowest
  counts first.
\<close>

definition spec_restored :: "nat \<Rightarrow> (int \<times> int) list \<Rightarrow> (int \<times> int) list \<Rightarrow> (int \<times> int) list" where
  "spec_restored n_ripr rat_nreads removed =
     rat_nreads @ take (n_ripr - length rat_nreads) (sort_key snd removed)"

subsection \<open>A tree with quasi-markers\<close>

text \<open>
  Two species with two strains each. The first species has eleven markers; the last
  two, \<open>r1\<close> with five reads and \<open>r2\<close> with one, are also found in a strain of the
  second species, half of whose markers have reads. The marker \<open>x\<close> of the second
  species lists a strain of its own species.
\<close>

definition ex_species_a :: clade where
  "ex_species_a =
     new_clade ''s__A''
       [(''t__A1'', new_clade ''t__A1'' [] []), (''t__A2'', new_clade ''t__A2'' [] [])]
       [(''a1'', 2), (''a2'', 2), (''a3'', 2), (''a4'', 2), (''a5'', 2), (''a6'', 2),
        (''a7'', 2), (''a8'', 2), (''a9'', 2), (''r1'', 5), (''r2'', 1)]"

definition ex_species_b :: clade where
  "ex_species_b =
     new_clade ''s__B''
       [(''t__B1'', new_clade ''t__B1'' [] []), (''t__B2'', new_clade ''t__B2'' [] [])]
       [(''x'', 3), (''y'', 0)]"

definition ex_disqm_root :: clade where
  "ex_disqm_root =
     new_clade ''root''
       [(''k__Bacteria'', new_clade ''k__Bacteria''
           [(''s__A'', ex_species_a), (''s__B'', ex_species_b)] [])] []"

definition ex_disqm_tree :: taxtree where
  "ex_disqm_tree =
     \<lparr>tree_root = ex_disqm_root,
      all_clades = [(''k__Bacteria'', [''k__Bacteria'']),
                    (''s__A'', [''k__Bacteria'', ''s__A'']),
                    (''t__A1'', [''k__Bacteria'', ''s__A'', ''t__A1'']),
                    (''t__A2'', [''k__Bacteria'', ''s__A'', ''t__A2'']),
                    (''s__B'', [''k__Bacteria'', ''s__B'']),
                    (''t__B1'', [''k__Bacteria'', ''s__B'', ''t__B1'']),
                    (''t__B2'', [''k__Bacteria'', ''s__B'', ''t__B2''])],
      markers2lens = [(''a1'', 100), (''a2'', 100), (''a3'', 100), (''a4'', 100),
                      (''a5'', 100), (''a6'', 100), (''a7'', 100), (''a8'', 100),
                      (''a9'', 100), (''r1'', 700), (''r2'', 800), (''x'', 300), (''y'', 400)],
      markers2clades = [(''a1'', ''s__A''), (''a2'', ''s__A''), (''a3'', ''s__A''),
                        (''a4'', ''s__A''), (''a5'', ''s__A''), (''a6'', ''s__A''),
                        (''a7'', ''s__A''), (''a8'', ''s__A''), (''a9'', ''s__A''),
                        (''r1'', ''s__A''), (''r2'', ''s__A''), (''x'', ''s__B''),
                        (''y'', ''s__B'')],
      taxa2clades = [(''A1'', [''k__Bacteria'', ''s__A'']), (''A2'', [''k__Bacteria'', ''s__A'']),
                     (''B1'', [''k__Bacteria'', ''s__B'']), (''B2'', [''k__Bacteria'', ''s__B''])],
      markers2exts = [(''a1'', []), (''a2'', []), (''a3'', []), (''a4'', []), (''a5'', []),
                      (''a6'', []), (''a7'', []), (''a8'', []), (''a9'', []),
                      (''r1'', [''B1'']), (''r2'', [''B1'']), (''x'', [''B2'']), (''y'', [])]\<rparr>"

definition ex_disqm_anc :: "clade list" where
  "ex_disqm_anc = ancestors_at [] ex_disqm_root [''k__Bacteria'', ''s__A'']"

definition ex_nine :: "(int \<times> int) list" where
  "ex_nine = [(100, 2), (100, 2), (100, 2), (100, 2), (100, 2), (100, 2), (100, 2),
              (100, 2), (100, 2)]"

section \<open>Properties\<close>

subsection \<open>The example trees are trees the program builds\<close>

text \<open>
  Each example is what \<^verbatim>\<open>TaxTree.__init__\<close> builds from a database, followed by the
  recording of a mapping.
\<close>

lemma ex_tree_loaded:
  "loaded [''k__A|s__S|t__X'', ''k__A|s__S|t__Y'']
     [(''m1'', \<lparr>len = 1000, clade_name = ''t__X'', ext = [''Y'']\<rparr>),
      (''m2'', \<lparr>len = 1000, clade_name = ''t__Y'', ext = []\<rparr>)]
     [(''m1'', 5)] = Inr ex_tree"
  by code_simp

lemma ex_tree10_loaded:
  "loaded [''k__K|s__S'', ''k__K|s__T'']
     [(''pm'', \<lparr>len = 1000, clade_name = ''k__K'', ext = []\<rparr>),
      (''b0'', \<lparr>len = 100, clade_name = ''s__T'', ext = []\<rparr>),
      (''a0'', \<lparr>len = 100, clade_name = ''s__S'', ext = []\<rparr>),
      (''a1'', \<lparr>len = 100, clade_name = ''s__S'', ext = []\<rparr>),
      (''a2'', \<lparr>len = 100, clade_name = ''s__S'', ext = []\<rparr>),
      (''a3'', \<lparr>len = 100, clade_name = ''s__S'', ext = []\<rparr>),
      (''a4'', \<lparr>len = 100, clade_name = ''s__S'', ext = []\<rparr>),
      (''a5'', \<lparr>len = 100, clade_name = ''s__S'', ext = []\<rparr>),
      (''a6'', \<lparr>len = 100, clade_name = ''s__S'', ext = []\<rparr>),
      (''a7'', \<lparr>len = 100, clade_name = ''s__S'', ext = []\<rparr>),
      (''a8'', \<lparr>len = 100, clade_name = ''s__S'', ext = []\<rparr>),
      (''a9'', \<lparr>len = 100, clade_name = ''s__S'', ext = []\<rparr>)]
     [(''a9'', 100)] = Inr ex_tree10"
  by code_simp

lemma ex_chain_tree_loaded:
  "loaded [''k__Bacteria|g__G|s__One'', ''k__Viruses|s__V'']
     [(''mB'', \<lparr>len = 500, clade_name = ''g__G'', ext = []\<rparr>),
      (''mV'', \<lparr>len = 300, clade_name = ''s__V'', ext = []\<rparr>)]
     [] = Inr ex_chain_tree"
  by code_simp

lemma ex_uncl_tree_loaded:
  "loaded [''k__Bacteria|s__unclassified'']
     [(''u1'', \<lparr>len = 1000, clade_name = ''s__unclassified'', ext = []\<rparr>)]
     [(''u1'', 5)] = Inr ex_uncl_tree"
  by code_simp

lemma ex_disqm_tree_loaded:
  "loaded [''k__Bacteria|s__A|t__A1'', ''k__Bacteria|s__A|t__A2'',
           ''k__Bacteria|s__B|t__B1'', ''k__Bacteria|s__B|t__B2'']
     [(''a1'', \<lparr>len = 100, clade_name = ''s__A'', ext = []\<rparr>),
      (''a2'', \<lparr>len = 100, clade_name = ''s__A'', ext = []\<rparr>),
      (''a3'', \<lparr>len = 100, clade_name = ''s__A'', ext = []\<rparr>),
      (''a4'', \<lparr>len = 100, clade_name = ''s__A'', ext = []\<rparr>),
      (''a5'', \<lparr>len = 100, clade_name = ''s__A'', ext = []\<rparr>),
      (''a6'', \<lparr>len = 100, clade_name = ''s__A'', ext = []\<rparr>),
      (''a7'', \<lparr>len = 100, clade_name = ''s__A'', ext = []\<rparr>),
      (''a8'', \<lparr>len = 100, clade_name = ''s__A'', ext = []\<rparr>),
      (''a9'', \<lparr>len = 100, clade_name = ''s__A'', ext = []\<rparr>),
      (''r1'', \<lparr>len = 700, clade_name = ''s__A'', ext = [''B1'']\<rparr>),
      (''r2'', \<lparr>len = 800, clade_name = ''s__A'', ext = [''B1'']\<rparr>),
      (''x'', \<lparr>len = 300, clade_name = ''s__B'', ext = [''B2'']\<rparr>),
      (''y'', \<lparr>len = 400, clade_name = ''s__B'', ext = []\<rparr>)]
     [(''a1'', 2), (''a2'', 2), (''a3'', 2), (''a4'', 2), (''a5'', 2), (''a6'', 2),
      (''a7'', 2), (''a8'', 2), (''a9'', 2), (''r1'', 5), (''r2'', 1), (''x'', 3)]
     = Inr ex_disqm_tree"
  by code_simp

subsection \<open>Monotonicity of the computed abundances\<close>

lemma strain_rule_True: "strain_rule anc c = Inr True \<Longrightarrow> startswith (name c) ''t''"
  by (auto simp: strain_rule_def startswith_def split: list.splits if_splits)

text \<open>
  What one step leaves behind: the abundance it returns, no change to the shape of
  the clade, and a value that is at least the children's sum unless the strain rule
  has fired.
\<close>

lemma clade_step_result:
  assumes "clade_step cfg tr anc sum_ab c = Inr (v, c')"
  shows "abundance c' = Some v \<and> children c' = children c \<and> name c' = name c
         \<and> markers2nreads c' = markers2nreads c \<and> uncl c' = uncl c
         \<and> (sum_ab \<le> v \<or> (v = 0 \<and> startswith (name c) ''t''))"
  using assms
  by (auto simp: clade_step_def finish_def set_abundance_def Let_def dest: strain_rule_True
           split: sum.splits if_splits)

lemma compute_monotone:
  "compute_abundance cfg tr anc c = Inr (v, c') \<Longrightarrow>
      consistent c \<Longrightarrow> strains_terminal c \<Longrightarrow> abundance c' = Some v \<and> monotone c'"
  "compute_children cfg tr anc chs = Inr (s, chs') \<Longrightarrow>
      consistent_all chs \<Longrightarrow> strains_terminal_all chs \<Longrightarrow>
      children_sum chs' = Some s \<and> monotone_all chs' \<and> (chs = [] \<longrightarrow> chs' = [])"
proof (induction cfg tr anc c and cfg tr anc chs arbitrary: v c' and s chs'
       rule: compute_abundance_compute_children.induct)
  case (1 cfg tr anc nm chs m2n ab ua su un)
  show ?case
  proof (cases ab)
    case (Some a)
    with 1 show ?thesis by auto
  next
    case None
    with "1.prems" obtain sum_ab chs1 where
      ch: "compute_children cfg tr (Clade nm chs m2n ab ua su un # anc) chs = Inr (sum_ab, chs1)"
      and st: "clade_step cfg tr anc sum_ab (Clade nm chs1 m2n ab ua su un) = Inr (v, c')"
      by (auto split: sum.splits)
    from "1.IH"[OF None ch] "1.prems" None
    have ih: "children_sum chs1 = Some sum_ab" "monotone_all chs1" "chs = [] \<longrightarrow> chs1 = []"
      by auto
    from clade_step_result[OF st]
    have r: "abundance c' = Some v" "children c' = chs1" "name c' = nm"
      "sum_ab \<le> v \<or> (v = 0 \<and> startswith nm ''t'')" by auto
    have "sum_ab \<le> v"
    proof (cases "startswith nm ''t''")
      case True
      with "1.prems" have "chs = []" by simp
      with ih have "sum_ab = 0" by auto
      with r show ?thesis by auto
    next
      case False
      with r show ?thesis by auto
    qed
    with r ih show ?thesis by (cases c') (auto simp: monotone_here_def)
  qed
next
  case (2 cfg tr anc)
  then show ?case by simp
next
  case (3 cfg tr anc k c rest)
  from "3.prems" obtain a c1 s1 rest1 where
    a: "compute_abundance cfg tr anc c = Inr (a, c1)"
    and b: "compute_children cfg tr anc rest = Inr (s1, rest1)"
    and e: "s = a + s1" "chs' = (k, c1) # rest1"
    by (auto split: sum.splits)
  from "3.IH"(1)[OF a] "3.prems" have "abundance c1 = Some a \<and> monotone c1" by simp
  moreover from "3.IH"(2)[OF a _ b] "3.prems"
  have "children_sum rest1 = Some s1 \<and> monotone_all rest1" by simp
  ultimately show ?case using e by simp
qed

lemma monotone_all_lookup:
  "monotone_all chs \<Longrightarrow> map_of chs k = Some ch \<Longrightarrow> monotone ch"
  by (induction chs) (auto split: if_splits)

lemma monotone_children: "monotone c \<Longrightarrow> monotone_all (children c)"
  by (cases c) simp

lemma monotone_at: "monotone c \<Longrightarrow> clade_at c p = Some d \<Longrightarrow> monotone d"
proof (induction p arbitrary: c)
  case Nil
  then show ?case by simp
next
  case (Cons k p)
  then show ?case
    by (auto split: option.splits dest: monotone_children monotone_all_lookup)
qed

lemma monotone_hereD:
  "monotone d \<Longrightarrow> \<exists>a s. abundance d = Some a \<and> children_sum (children d) = Some s \<and> s \<le> a"
  by (cases d) (auto simp: monotone_here_def split: option.splits)

text \<open>
  C1. After \<^verbatim>\<open>compute_abundance\<close> has returned on a clade of a tree whose strains are
  terminal, the clade holds the returned abundance, and every clade \<open>d\<close> at or below
  it holds an abundance that is at least the sum of the abundances of its children.
  The configuration is arbitrary: the seven statistic modes and both settings of
  \<^verbatim>\<open>avoid_disqm\<close>.
\<close>

theorem compute_abundance_monotone:
  assumes "compute_abundance cfg tr anc c = Inr (v, c')"
    and "consistent c" and "strains_terminal c"
    and "clade_at c' p = Some d"
  shows "abundance c' = Some v
         \<and> (\<exists>a s. abundance d = Some a \<and> children_sum (children d) = Some s \<and> s \<le> a)"
  using compute_monotone(1)[OF assms(1,2,3)] monotone_at[OF _ assms(4)] monotone_hereD
  by blast

theorem compute_abundance_monotone_witness:
  "compute_abundance ex_config ex_tree [] ex_root = Inr (1 / 200, ex_root_computed)
   \<and> consistent ex_root \<and> strains_terminal ex_root
   \<and> clade_at ex_root_computed [''k__A'', ''s__S''] = Some ex_species_computed
   \<and> abundance ex_root_computed = Some (1 / 200)
   \<and> (\<exists>a s. abundance ex_species_computed = Some a
        \<and> children_sum (children ex_species_computed) = Some s \<and> s \<le> a)"
proof -
  have h1: "compute_abundance ex_config ex_tree [] ex_root = Inr (1 / 200, ex_root_computed)"
    by code_simp
  have h2: "consistent ex_root" by code_simp
  have h3: "strains_terminal ex_root" by code_simp
  have h4: "clade_at ex_root_computed [''k__A'', ''s__S''] = Some ex_species_computed"
    by code_simp
  from compute_abundance_monotone[OF h1 h2 h3 h4] h1 h2 h3 h4 show ?thesis by blast
qed

subsection \<open>Memoisation\<close>

lemma memoised_call:
  "abundance c = Some a \<Longrightarrow> compute_abundance cfg tr anc c = Inr (a, c)"
  by (cases c) simp

lemma reads_changed_abundance: "reads_changed c c2 \<Longrightarrow> abundance c2 = abundance c"
  by (cases c) simp

lemma compute_computed:
  "compute_abundance cfg tr anc c = Inr (v, c') \<Longrightarrow> memo_closed c
     \<Longrightarrow> abundance c' = Some v \<and> computed c'"
  "compute_children cfg tr anc chs = Inr (s, chs') \<Longrightarrow> memo_closed_all chs
     \<Longrightarrow> computed_all chs'"
proof (induction cfg tr anc c and cfg tr anc chs arbitrary: v c' and s chs'
       rule: compute_abundance_compute_children.induct)
  case (1 cfg tr anc nm chs m2n ab ua su un)
  show ?case
  proof (cases ab)
    case (Some a)
    with 1 show ?thesis by auto
  next
    case None
    with "1.prems" obtain sum_ab chs1 where
      ch: "compute_children cfg tr (Clade nm chs m2n ab ua su un # anc) chs = Inr (sum_ab, chs1)"
      and st: "clade_step cfg tr anc sum_ab (Clade nm chs1 m2n ab ua su un) = Inr (v, c')"
      by (auto split: sum.splits)
    from "1.IH"[OF None ch] "1.prems" None have "computed_all chs1" by simp
    with clade_step_result[OF st] show ?thesis by (cases c') auto
  qed
next
  case (2 cfg tr anc)
  then show ?case by simp
next
  case (3 cfg tr anc k c rest)
  from "3.prems" obtain a c1 s1 rest1 where
    a: "compute_abundance cfg tr anc c = Inr (a, c1)"
    and b: "compute_children cfg tr anc rest = Inr (s1, rest1)"
    and e: "chs' = (k, c1) # rest1"
    by (auto split: sum.splits)
  from "3.IH"(1)[OF a] "3.IH"(2)[OF a _ b] "3.prems" e show ?case by simp
qed

lemma computed_all_lookup: "computed_all chs \<Longrightarrow> map_of chs k = Some ch \<Longrightarrow> computed ch"
  by (induction chs) (auto split: if_splits)

lemma computed_at: "computed c \<Longrightarrow> clade_at c p = Some d \<Longrightarrow> \<exists>a. abundance d = Some a"
proof (induction p arbitrary: c)
  case Nil
  then show ?case by (cases c) auto
next
  case (Cons k p)
  then show ?case by (cases c) (auto split: option.splits dest: computed_all_lookup)
qed

text \<open>
  C2. Once \<^verbatim>\<open>compute_abundance\<close> has returned \<open>v\<close> on a clade, a second call on it
  returns \<open>v\<close> and assigns nothing; so does a call after any assignments to
  \<^verbatim>\<open>markers2nreads\<close>, in the clade, below it (\<open>reads_changed\<close>) or elsewhere in the
  tree (\<open>tr2\<close>), and under any configuration. The same holds for every clade below:
  each holds its abundance, and a later call on it returns that value without
  computing again.
\<close>

theorem compute_abundance_memoised:
  assumes "compute_abundance cfg tr anc c = Inr (v, c')" and "memo_closed c"
  shows "compute_abundance cfg tr anc c' = Inr (v, c')
         \<and> (\<forall>c2 cfg2 tr2 anc2. reads_changed c' c2
                \<longrightarrow> compute_abundance cfg2 tr2 anc2 c2 = Inr (v, c2))
         \<and> (\<forall>p d. clade_at c' p = Some d \<longrightarrow>
               (\<exists>a. abundance d = Some a
                  \<and> (\<forall>d2 cfg2 tr2 anc2. reads_changed d d2
                        \<longrightarrow> compute_abundance cfg2 tr2 anc2 d2 = Inr (a, d2))))"
proof -
  from compute_computed(1)[OF assms] have v: "abundance c' = Some v" and m: "computed c'"
    by auto
  have 1: "compute_abundance cfg tr anc c' = Inr (v, c')"
    using v by (rule memoised_call)
  have 2: "\<forall>c2 cfg2 tr2 anc2. reads_changed c' c2
                \<longrightarrow> compute_abundance cfg2 tr2 anc2 c2 = Inr (v, c2)"
    using v by (auto dest!: reads_changed_abundance intro!: memoised_call)
  have 3: "\<forall>p d. clade_at c' p = Some d \<longrightarrow>
               (\<exists>a. abundance d = Some a
                  \<and> (\<forall>d2 cfg2 tr2 anc2. reads_changed d d2
                        \<longrightarrow> compute_abundance cfg2 tr2 anc2 d2 = Inr (a, d2)))"
  proof (intro allI impI)
    fix p d assume "clade_at c' p = Some d"
    with m obtain a where a: "abundance d = Some a" using computed_at by blast
    then show "\<exists>a. abundance d = Some a
                  \<and> (\<forall>d2 cfg2 tr2 anc2. reads_changed d d2
                        \<longrightarrow> compute_abundance cfg2 tr2 anc2 d2 = Inr (a, d2))"
      by (auto dest!: reads_changed_abundance intro!: memoised_call)
  qed
  from 1 2 3 show ?thesis by blast
qed

theorem compute_abundance_memoised_witness:
  "compute_abundance ex_config ex_tree [] ex_root = Inr (1 / 200, ex_root_computed)
   \<and> memo_closed ex_root
   \<and> reads_changed ex_root_computed ex_root_mutated
   \<and> ex_root_mutated \<noteq> ex_root_computed
   \<and> compute_abundance ex_config ex_tree [] ex_root_computed = Inr (1 / 200, ex_root_computed)
   \<and> compute_abundance (ex_config\<lparr>stat := avg_l\<rparr>) (ex_tree\<lparr>tree_root := ex_root_mutated\<rparr>)
         [] ex_root_mutated = Inr (1 / 200, ex_root_mutated)"
proof -
  have h1: "compute_abundance ex_config ex_tree [] ex_root = Inr (1 / 200, ex_root_computed)"
    by code_simp
  have h2: "memo_closed ex_root" by code_simp
  have h3: "reads_changed ex_root_computed ex_root_mutated" by code_simp
  have h4: "ex_root_mutated \<noteq> ex_root_computed" by code_simp
  from compute_abundance_memoised[OF h1 h2] h1 h2 h3 h4 show ?thesis by blast
qed

subsection \<open>The statistic modes\<close>

text \<open>
  C6. In mode \<^verbatim>\<open>avg_g\<close> the local estimate of a nonempty active set whose lengths
  have a positive sum is the sum of the counts divided by the sum of the lengths; the
  witness is the set of lengths 100, 100, 100, 100 and counts 0, 2, 4, 10, with
  estimate 16/400 = 0.04.
\<close>

theorem avg_g_is_global_average:
  assumes "rat_nreads \<noteq> []" and "0 < sum_list (map fst rat_nreads)"
  shows "local_abundance avg_g q rat_nreads =
           Inr (real_of_int (sum_list (map snd rat_nreads))
                / real_of_int (sum_list (map fst rat_nreads)))"
  using assms by (simp add: local_abundance_def rat_of_def Let_def)

theorem avg_g_is_global_average_witness:
  "[(100, 0), (100, 2), (100, 4), (100, 10)] \<noteq> ([] :: (int \<times> int) list)
   \<and> (0::int) < sum_list (map fst [(100, 0), (100, 2), (100, 4), (100, 10)])
   \<and> local_abundance avg_g (1 / 10) [(100, 0), (100, 2), (100, 4), (100, 10)] = Inr (16 / 400)
   \<and> (16 / 400 :: real) = 4 / 100"
  using avg_g_is_global_average [of "[(100, 0), (100, 2), (100, 4), (100, 10)]" "1 / 10"]
  by simp

lemma get_terminals_length_children:
  "length (get_terminals c) =
     (if children c = [] then 1 else length (get_terminals_of (children c)))"
  by (cases c) simp

text \<open>The calls below a clade change no shape: the number of terminals stays.\<close>

lemma compute_terminals:
  "compute_abundance cfg tr anc c = Inr (v, c') \<Longrightarrow>
     length (get_terminals c') = length (get_terminals c)"
  "compute_children cfg tr anc chs = Inr (s, chs') \<Longrightarrow>
     length (get_terminals_of chs') = length (get_terminals_of chs)
     \<and> (chs' = [] \<longleftrightarrow> chs = [])"
proof (induction cfg tr anc c and cfg tr anc chs arbitrary: v c' and s chs'
       rule: compute_abundance_compute_children.induct)
  case (1 cfg tr anc nm chs m2n ab ua su un)
  show ?case
  proof (cases ab)
    case (Some a)
    with 1 show ?thesis by auto
  next
    case None
    with "1.prems" obtain sum_ab chs1 where
      ch: "compute_children cfg tr (Clade nm chs m2n ab ua su un # anc) chs = Inr (sum_ab, chs1)"
      and st: "clade_step cfg tr anc sum_ab (Clade nm chs1 m2n ab ua su un) = Inr (v, c')"
      by (auto split: sum.splits)
    from clade_step_result[OF st] have c': "children c' = chs1" by simp
    from "1.IH"[OF None ch]
    have ih: "length (get_terminals_of chs1) = length (get_terminals_of chs)"
      "chs1 = [] \<longleftrightarrow> chs = []"
      by auto
    have "length (get_terminals c') = (if chs1 = [] then 1 else length (get_terminals_of chs1))"
      using c' get_terminals_length_children[of c'] by simp
    also have "\<dots> = (if chs = [] then 1 else length (get_terminals_of chs))"
      using ih by simp
    also have "\<dots> = length (get_terminals (Clade nm chs m2n ab ua su un))"
      by simp
    finally show ?thesis .
  qed
next
  case (2 cfg tr anc)
  then show ?case by simp
next
  case (3 cfg tr anc k c rest)
  from "3.prems" obtain a c1 s1 rest1 where
    a: "compute_abundance cfg tr anc c = Inr (a, c1)"
    and b: "compute_children cfg tr anc rest = Inr (s1, rest1)"
    and e: "chs' = (k, c1) # rest1"
    by (auto split: sum.splits)
  from "3.IH"(1)[OF a] "3.IH"(2)[OF a _ b] e show ?case by simp
qed

text \<open>The active set reads neither the statistic mode nor the fields the calls assign.\<close>

lemma disqm_loop_stat: "disqm_loop (cfg\<lparr>stat := m\<rparr>) tr ms = disqm_loop cfg tr ms"
  by (induction ms) (auto split: sum.splits)

lemma restore_removed_stat:
  "restore_removed (cfg\<lparr>stat := m\<rparr>) anc c a r = restore_removed cfg anc c a r"
  by (simp add: restore_removed_def)

lemma active_set_stat: "active_set (cfg\<lparr>stat := m\<rparr>) tr anc c = active_set cfg tr anc c"
  unfolding active_set_def disqm_loop_stat restore_removed_stat ..

lemma n_ripr_children:
  assumes "length (get_terminals_of chs') = length (get_terminals_of chs)"
    and "chs' = [] \<longleftrightarrow> chs = []"
  shows "n_ripr_of anc (Clade nm chs' m2n ab ua su un)
         = n_ripr_of anc (Clade nm chs m2n ab ua su un)"
  using assms by (simp add: n_ripr_of_def get_full_name_def)

lemma restore_removed_children:
  assumes "length (get_terminals_of chs') = length (get_terminals_of chs)"
    and "chs' = [] \<longleftrightarrow> chs = []"
  shows "restore_removed cfg anc (Clade nm chs' m2n ab ua su un) a r
         = restore_removed cfg anc (Clade nm chs m2n ab ua su un) a r"
  unfolding restore_removed_def n_ripr_children[OF assms] ..

lemma active_set_children:
  assumes "length (get_terminals_of chs') = length (get_terminals_of chs)"
    and "chs' = [] \<longleftrightarrow> chs = []"
  shows "active_set cfg tr anc (Clade nm chs' m2n ab ua su un)
         = active_set cfg tr anc (Clade nm chs m2n ab ua su un)"
  unfolding active_set_def restore_removed_children[OF assms] clade.sel ..

lemma local_abundance_zero_trim:
  assumes "quant_of q act = 0"
  shows "local_abundance tavg_g q act = local_abundance avg_g q act"
    and "local_abundance wavg_g q act = local_abundance avg_g q act"
    and "local_abundance tavg_l q act = local_abundance avg_l q act"
    and "local_abundance wavg_l q act = local_abundance avg_l q act"
  unfolding local_abundance_def Let_def assms by simp_all

lemma clade_step_stat:
  assumes "active_set cfg tr anc c = Inr act"
    and "local_abundance m (quantile cfg) act = local_abundance m' (quantile cfg) act"
  shows "clade_step (cfg\<lparr>stat := m\<rparr>) tr anc sum_ab c
         = clade_step (cfg\<lparr>stat := m'\<rparr>) tr anc sum_ab c"
proof (cases "strain_rule anc c")
  case (Inl e)
  then show ?thesis by (simp add: clade_step_def active_set_stat assms(1))
next
  case (Inr strain)
  show ?thesis
  proof (cases "local_abundance m' (quantile cfg) act")
    case (Inl e)
    with Inr assms show ?thesis by (simp add: clade_step_def active_set_stat)
  next
    case loc: (Inr loc_ab)
    with Inr assms show ?thesis by (simp add: clade_step_def active_set_stat finish_def)
  qed
qed

lemma clade_step_zero_trim:
  assumes "active_set cfg tr anc c = Inr act" and "quant_of (quantile cfg) act = 0"
    and "(m, m') \<in> set zero_trim_pairs"
  shows "clade_step (cfg\<lparr>stat := m\<rparr>) tr anc sum_ab c
         = clade_step (cfg\<lparr>stat := m'\<rparr>) tr anc sum_ab c"
proof -
  from assms(3) consider "m = tavg_g \<and> m' = avg_g" | "m = wavg_g \<and> m' = avg_g"
    | "m = tavg_l \<and> m' = avg_l" | "m = wavg_l \<and> m' = avg_l"
    by (auto simp: zero_trim_pairs_def)
  then have "local_abundance m (quantile cfg) act = local_abundance m' (quantile cfg) act"
    by cases (simp_all add: local_abundance_zero_trim[OF assms(2)])
  with assms(1) show ?thesis by (rule clade_step_stat)
qed

text \<open>
  C10, as the specification states it, fails: the kingdom of \<open>ex_tree10\<close> has one
  active marker, so its trim width is 0, yet \<^verbatim>\<open>compute_abundance\<close> returns 0 on it
  in mode \<^verbatim>\<open>tavg_g\<close> and 1/10 in mode \<^verbatim>\<open>avg_g\<close>. Its first species has ten
  active markers and trim width 1, and the kingdom takes the sum of its children.
\<close>

theorem zero_trim_children_counterexample:
  "active_set ex_config10 ex_tree10 [tree_root ex_tree10] ex_kingdom10 = Inr [(1000, 0)]
   \<and> quant_of (quantile ex_config10) [(1000, 0)] = 0
   \<and> returned (compute_abundance (ex_config10\<lparr>stat := tavg_g\<rparr>) ex_tree10
                  [tree_root ex_tree10] ex_kingdom10) = Inr 0
   \<and> returned (compute_abundance (ex_config10\<lparr>stat := avg_g\<rparr>) ex_tree10
                  [tree_root ex_tree10] ex_kingdom10) = Inr (1 / 10)
   \<and> compute_abundance (ex_config10\<lparr>stat := tavg_g\<rparr>) ex_tree10
        [tree_root ex_tree10] ex_kingdom10
      \<noteq> compute_abundance (ex_config10\<lparr>stat := avg_g\<rparr>) ex_tree10
          [tree_root ex_tree10] ex_kingdom10"
  by code_simp

text \<open>
  C10, amended. For a clade whose active set has trim width 0, and whose children
  yield the same results in the two modes (a leaf, or children that are memoised, or
  children that agree for any other reason), \<^verbatim>\<open>compute_abundance\<close> returns the same
  in mode \<^verbatim>\<open>tavg_g\<close> or \<^verbatim>\<open>wavg_g\<close> as in \<^verbatim>\<open>avg_g\<close>, and the same in \<^verbatim>\<open>tavg_l\<close> or
  \<^verbatim>\<open>wavg_l\<close> as in \<^verbatim>\<open>avg_l\<close>: the value and the state it leaves.
\<close>

theorem zero_trim_modes_agree:
  assumes "active_set cfg tr anc c = Inr act" and "quant_of (quantile cfg) act = 0"
    and "(m, m') \<in> set zero_trim_pairs"
    and "compute_children (cfg\<lparr>stat := m\<rparr>) tr (c # anc) (children c)
         = compute_children (cfg\<lparr>stat := m'\<rparr>) tr (c # anc) (children c)"
  shows "compute_abundance (cfg\<lparr>stat := m\<rparr>) tr anc c
         = compute_abundance (cfg\<lparr>stat := m'\<rparr>) tr anc c"
proof (cases c)
  case (Clade nm chs m2n ab ua su un)
  show ?thesis
  proof (cases ab)
    case (Some a)
    then show ?thesis unfolding Clade by simp
  next
    case None
    have eq: "compute_children (cfg\<lparr>stat := m\<rparr>) tr (Clade nm chs m2n None ua su un # anc) chs
         = compute_children (cfg\<lparr>stat := m'\<rparr>) tr (Clade nm chs m2n None ua su un # anc) chs"
      using assms(4) unfolding Clade None by simp
    show ?thesis
    proof (cases "compute_children (cfg\<lparr>stat := m'\<rparr>) tr
                    (Clade nm chs m2n None ua su un # anc) chs")
      case (Inl e)
      then show ?thesis unfolding Clade None by (simp add: eq)
    next
      case (Inr r)
      obtain sum_ab chs' where r: "r = (sum_ab, chs')" by (cases r)
      from compute_terminals(2)[OF Inr[unfolded r]]
      have "active_set cfg tr anc (Clade nm chs' m2n None ua su un)
            = active_set cfg tr anc (Clade nm chs m2n None ua su un)"
        by (intro active_set_children) auto
      with assms(1) have "active_set cfg tr anc (Clade nm chs' m2n None ua su un) = Inr act"
        unfolding Clade None by simp
      from clade_step_zero_trim[OF this assms(2,3)] Inr r
      show ?thesis unfolding Clade None by (simp add: eq)
    qed
  qed
qed

theorem zero_trim_modes_agree_witness:
  "active_set ex_config ex_tree ex_strain_anc ex_strain = Inr [(1000, 5)]
   \<and> quant_of (quantile ex_config) [(1000, 5)] = 0
   \<and> (tavg_g, avg_g) \<in> set zero_trim_pairs
   \<and> compute_children (ex_config\<lparr>stat := tavg_g\<rparr>) ex_tree (ex_strain # ex_strain_anc)
        (children ex_strain)
      = compute_children (ex_config\<lparr>stat := avg_g\<rparr>) ex_tree (ex_strain # ex_strain_anc)
          (children ex_strain)
   \<and> compute_abundance (ex_config\<lparr>stat := tavg_g\<rparr>) ex_tree ex_strain_anc ex_strain
      = compute_abundance (ex_config\<lparr>stat := avg_g\<rparr>) ex_tree ex_strain_anc ex_strain
   \<and> returned (compute_abundance (ex_config\<lparr>stat := avg_g\<rparr>) ex_tree ex_strain_anc ex_strain)
      = Inr (1 / 200)"
proof -
  have h1: "active_set ex_config ex_tree ex_strain_anc ex_strain = Inr [(1000, 5)]"
    by code_simp
  have h2: "quant_of (quantile ex_config) [(1000, 5)] = 0" by code_simp
  have h3: "(tavg_g, avg_g) \<in> set zero_trim_pairs" by (simp add: zero_trim_pairs_def)
  have h4: "compute_children (ex_config\<lparr>stat := tavg_g\<rparr>) ex_tree (ex_strain # ex_strain_anc)
        (children ex_strain)
      = compute_children (ex_config\<lparr>stat := avg_g\<rparr>) ex_tree (ex_strain # ex_strain_anc)
          (children ex_strain)"
    by (simp add: ex_strain_def new_clade_def)
  have h5: "returned (compute_abundance (ex_config\<lparr>stat := avg_g\<rparr>) ex_tree
              ex_strain_anc ex_strain) = Inr (1 / 200)"
    by code_simp
  from zero_trim_modes_agree[OF h1 h2 h3 h4] h1 h2 h3 h4 h5 show ?thesis by blast
qed

subsection \<open>The order of the relative-abundance table\<close>

text \<open>
  C9, as the specification states it, fails: in the table of \<open>ex_cl2ab\<close> the phylum
  with 40 precedes the class with 60.
\<close>

theorem rel_ab_rows_not_descending:
  "rel_ab_rows ex_cl2ab =
     [(''k__A'', 100), (''k__A|p__B'', 60), (''k__A|p__C'', 40), (''k__A|p__B|c__D'', 60)]
   \<and> \<not> claimed_order (rel_ab_rows ex_cl2ab)"
  by code_simp

lemma sorted_desc_key:
  "sorted_wrt (\<lambda>x y. row_key y \<le> row_key x) (sort_key (\<lambda>x. - row_key x) xs)"
proof -
  have "sorted (map (\<lambda>x. - row_key x) (sort_key (\<lambda>x. - row_key x) xs))"
    by (rule sorted_sort_key)
  then show ?thesis by (simp add: sorted_map)
qed

lemma key_order:
  assumes "row_key y \<le> row_key x"
  shows "(depth x = depth y \<longrightarrow> snd y \<le> snd x)
         \<and> (depth y < depth x \<longrightarrow> snd y + 100 \<le> snd x)"
proof -
  have "real (depth y) + 1 \<le> real (depth x)" if "depth y < depth x"
    using that by linarith
  with assms show ?thesis
    unfolding row_key_def depth_def[symmetric]
    by (auto simp: algebra_simps)
qed

text \<open>
  C9, amended. The rows written are the entries with a positive abundance, in
  descending order of the key \<open>percentage + 100 * (8 - depth)\<close>. So rows of the same
  depth are in descending order of abundance, and a deeper row precedes a shallower
  one only if its percentage is at least 100 more: with percentages between 0 and
  100 the table is ordered by depth first, the shallower rows first.
\<close>

theorem rel_ab_rows_order:
  assumes "outpred cl2ab \<noteq> []"
  shows "mset (rel_ab_rows cl2ab) = mset (outpred cl2ab)
         \<and> sorted_wrt (\<lambda>x y. row_key y \<le> row_key x) (rel_ab_rows cl2ab)
         \<and> sorted_wrt (\<lambda>x y. (depth x = depth y \<longrightarrow> snd y \<le> snd x)
                            \<and> (depth y < depth x \<longrightarrow> snd y + 100 \<le> snd x))
             (rel_ab_rows cl2ab)"
proof -
  have r: "rel_ab_rows cl2ab = sort_key (\<lambda>x. - row_key x) (outpred cl2ab)"
    using assms by (simp add: rel_ab_rows_def Let_def)
  have s: "sorted_wrt (\<lambda>x y. row_key y \<le> row_key x) (rel_ab_rows cl2ab)"
    unfolding r by (rule sorted_desc_key)
  from s have "sorted_wrt (\<lambda>x y. (depth x = depth y \<longrightarrow> snd y \<le> snd x)
                            \<and> (depth y < depth x \<longrightarrow> snd y + 100 \<le> snd x))
             (rel_ab_rows cl2ab)"
    by (rule sorted_wrt_mono_rel[rotated]) (use key_order in blast)
  with s r show ?thesis by simp
qed

theorem rel_ab_rows_order_witness:
  "outpred ex_cl2ab \<noteq> []
   \<and> mset (rel_ab_rows ex_cl2ab) = mset (outpred ex_cl2ab)
   \<and> sorted_wrt (\<lambda>x y. row_key y \<le> row_key x) (rel_ab_rows ex_cl2ab)
   \<and> rel_ab_rows ex_cl2ab =
       [(''k__A'', 100), (''k__A|p__B'', 60), (''k__A|p__C'', 40), (''k__A|p__B|c__D'', 60)]"
proof -
  have h: "outpred ex_cl2ab \<noteq> []" by code_simp
  have e: "rel_ab_rows ex_cl2ab =
       [(''k__A'', 100), (''k__A|p__B'', 60), (''k__A|p__C'', 40), (''k__A|p__B|c__D'', 60)]"
    by code_simp
  from rel_ab_rows_order[OF h] h e show ?thesis by blast
qed

subsection \<open>The strain rule\<close>

lemma strain_rule_fires:
  assumes "startswith (name c) ''t''" and "anc = father # up"
    and "length (children father) > 1 \<or> str_contains ''_sp'' (name father)
         \<or> str_contains ''k__Viruses'' (get_full_name anc c)"
  shows "strain_rule anc c = Inr True"
  using assms by (auto simp: strain_rule_def startswith_def split: list.splits)

lemma too_few_nonzero_iff:
  "too_few_nonzero act \<longleftrightarrow>
     (act = [] \<or> real (length (filter (\<lambda>(r, n). 0 < n) act)) / real (length act) < 7 / 10)"
  by (simp add: too_few_nonzero_def Let_def)

text \<open>A lineage under the viral kingdom contains its name.\<close>

lemma startswith_contains: "startswith s p \<Longrightarrow> str_contains p s"
  by (cases s) (auto simp: startswith_def)

text \<open>
  C5. A clade whose name starts with \<^verbatim>\<open>t\<close>, whose father has more than one child or
  a name that contains \<^verbatim>\<open>_sp\<close>, or whose full name contains \<^verbatim>\<open>k__Viruses\<close>, and
  whose active markers are none or fewer than 70% with reads, gets abundance 0:
  \<^verbatim>\<open>compute_abundance\<close> returns 0 and stores 0, whatever the counts and the
  statistic mode. The call is one that computes (no abundance is stored yet) and
  that raises nothing below the clade or in the active set.
\<close>

theorem strain_zero_out:
  assumes "startswith (name c) ''t''" and "anc = father # up"
    and "length (children father) > 1 \<or> str_contains ''_sp'' (name father)
         \<or> str_contains ''k__Viruses'' (get_full_name anc c)"
    and "abundance c = None"
    and "compute_children cfg tr (c # anc) (children c) = Inr (s, chs')"
    and "active_set cfg tr anc c = Inr act"
    and "act = [] \<or> real (length (filter (\<lambda>(r, n). 0 < n) act)) / real (length act) < 7 / 10"
  shows "\<exists>c'. compute_abundance cfg tr anc c = Inr (0, c') \<and> abundance c' = Some 0
              \<and> markers2nreads c' = markers2nreads c"
proof (cases c)
  case (Clade nm chs m2n ab ua su un)
  with assms(4) have ab: "ab = None" by simp
  let ?c1 = "Clade nm chs' m2n None ua su un"
  from assms(5) have ch: "compute_children cfg tr (Clade nm chs m2n None ua su un # anc) chs
                          = Inr (s, chs')"
    unfolding Clade ab by simp
  from compute_terminals(2)[OF ch]
  have "active_set cfg tr anc ?c1 = active_set cfg tr anc (Clade nm chs m2n None ua su un)"
    by (intro active_set_children) auto
  with assms(6) have act: "active_set cfg tr anc ?c1 = Inr act"
    unfolding Clade ab by simp
  have "get_full_name anc ?c1 = get_full_name anc c"
    unfolding Clade by (simp add: get_full_name_def)
  with assms(1,2,3) have sr: "strain_rule anc ?c1 = Inr True"
    unfolding Clade by (intro strain_rule_fires[where father = father and up = up]) auto
  from assms(7) have few: "too_few_nonzero act" by (simp add: too_few_nonzero_iff)
  have "clade_step cfg tr anc s ?c1 = Inr (0, set_abundance ?c1 0)"
    by (simp add: clade_step_def act sr few)
  then have "compute_abundance cfg tr anc c = Inr (0, set_abundance ?c1 0)"
    unfolding Clade ab by (simp add: ch)
  then show ?thesis unfolding Clade by (simp add: set_abundance_def)
qed

theorem strain_zero_out_witness:
  "startswith (name ex_strain_y) ''t''
   \<and> ex_strain_anc = hd ex_strain_anc # tl ex_strain_anc
   \<and> length (children (hd ex_strain_anc)) > 1
   \<and> abundance ex_strain_y = None
   \<and> compute_children ex_config ex_tree (ex_strain_y # ex_strain_anc) (children ex_strain_y)
       = Inr (0, [])
   \<and> active_set ex_config ex_tree ex_strain_anc ex_strain_y = Inr [(1000, 0)]
   \<and> real (length (filter (\<lambda>(r, n). 0 < n) [(1000 :: int, 0 :: int)]))
        / real (length [(1000 :: int, 0 :: int)]) < 7 / 10
   \<and> (\<exists>c'. compute_abundance ex_config ex_tree ex_strain_anc ex_strain_y = Inr (0, c')
          \<and> abundance c' = Some 0 \<and> markers2nreads c' = markers2nreads ex_strain_y)"
proof -
  have h1: "startswith (name ex_strain_y) ''t''" by code_simp
  have h2: "ex_strain_anc = hd ex_strain_anc # tl ex_strain_anc" by code_simp
  have h3: "length (children (hd ex_strain_anc)) > 1" by code_simp
  have h4: "abundance ex_strain_y = None" by code_simp
  have h5: "compute_children ex_config ex_tree (ex_strain_y # ex_strain_anc)
              (children ex_strain_y) = Inr (0, [])" by code_simp
  have h6: "active_set ex_config ex_tree ex_strain_anc ex_strain_y = Inr [(1000, 0)]"
    by code_simp
  have h7: "real (length (filter (\<lambda>(r, n). 0 < n) [(1000 :: int, 0 :: int)]))
        / real (length [(1000 :: int, 0 :: int)]) < 7 / 10" by simp
  from strain_zero_out[OF h1 h2 disjI1[OF h3] h4 h5 h6 disjI2[OF h7]] h1 h2 h3 h4 h5 h6 h7
  show ?thesis by blast
qed

subsection \<open>Recording reads\<close>

lemma map_of_dict_set_same: "map_of (dict_set d k v) k = Some v"
  by (induction d) auto

lemma map_of_dict_set_other: "k' \<noteq> k \<Longrightarrow> map_of (dict_set d k v) k' = map_of d k'"
  by (induction d) auto

lemma clade_at_append:
  "clade_at c (p @ q) = (case clade_at c p of None \<Rightarrow> None | Some d \<Rightarrow> clade_at d q)"
  by (induction p arbitrary: c) (auto split: option.splits)

lemma clade_at_unary_chain: "clade_at d (unary_chain d) = Some (collapse d)"
  by (induction d rule: collapse.induct) auto

lemma collapse_not_unary: "length (children (collapse d)) \<noteq> 1"
  by (induction d rule: collapse.induct) auto

lemma map_of_update_in_same:
  "map_of (update_in f chs k p) k = map_option (\<lambda>ch. update_at f ch p) (map_of chs k)"
  by (induction chs) auto

lemma map_of_update_in_other:
  "k' \<noteq> k \<Longrightarrow> map_of (update_in f chs k p) k' = map_of chs k'"
  by (induction chs) auto

lemma children_update_at_Cons:
  "children (update_at f c (k # p)) = update_in f (children c) k p"
  by (cases c) simp

lemma markers_update_at_Cons:
  "markers2nreads (update_at f c (k # p)) = markers2nreads c"
  by (cases c) simp

lemma clade_at_update_same:
  "clade_at c p = Some d \<Longrightarrow> clade_at (update_at f c p) p = Some (f d)"
proof (induction p arbitrary: c)
  case Nil
  then show ?case by simp
next
  case (Cons k p)
  then show ?case
    by (auto simp: children_update_at_Cons map_of_update_in_same split: option.splits)
qed

lemma clade_at_update_other:
  assumes "\<And>x. children (f x) = children x"
  shows "q \<noteq> p \<Longrightarrow> clade_at c q = Some d \<Longrightarrow>
     \<exists>d'. clade_at (update_at f c p) q = Some d' \<and> markers2nreads d' = markers2nreads d"
proof (induction q arbitrary: c p)
  case Nil
  then obtain k p' where "p = k # p'" by (cases p) auto
  with Nil show ?case by (simp add: markers_update_at_Cons)
next
  case (Cons k' q')
  show ?case
  proof (cases p)
    case Nil
    with Cons.prems assms show ?thesis by (simp split: option.splits)
  next
    case (Cons k p')
    show ?thesis
    proof (cases "k' = k")
      case True
      with Cons.prems Cons obtain ch where ch: "map_of (children c) k = Some ch"
        "clade_at ch q' = Some d" "q' \<noteq> p'"
        by (auto split: option.splits)
      from Cons.IH[OF ch(3) ch(2)] ch(1) True Cons show ?thesis
        by (simp add: children_update_at_Cons map_of_update_in_same)
    next
      case False
      with Cons.prems Cons show ?thesis
        by (simp add: children_update_at_Cons map_of_update_in_other split: option.splits)
    qed
  qed
qed



text \<open>
  C7. \<open>cl\<close> is the clade the marker belongs to and \<open>cn\<close> its full name. When a flag
  is set and \<open>cn\<close> starts with the kingdom of that flag, \<^verbatim>\<open>add_reads\<close> returns the
  empty string and the tree is unchanged. Otherwise it returns the full name of the
  clade \<open>collapse cl\<close> at the end of the unary chain below \<open>cl\<close>; in the new tree
  that clade holds the count \<open>n\<close> for the marker, whatever it held before, its other
  counts are as they were, and so are the counts of every other clade.
\<close>

theorem add_reads_records:
  assumes "dict_get (markers2clades tr) marker = Inr clade"
    and "dict_get (all_clades tr) clade = Inr p"
    and "clade_at (tree_root tr) p = Some cl"
    and "cn = get_full_name (ancestors_at [] (tree_root tr) p) cl"
    and "p' = p @ unary_chain cl"
  shows "if (iv \<and> startswith cn ''k__Viruses'') \<or> (ie \<and> startswith cn ''k__Eukaryotes'')
            \<or> (ia \<and> startswith cn ''k__Archaea'') \<or> (ib \<and> startswith cn ''k__Bacteria'')
         then add_reads tr marker n iv ie ib ia = Inr ([], tr)
         else (\<exists>r'. add_reads tr marker n iv ie ib ia
                       = Inr (get_full_name (ancestors_at [] (tree_root tr) p') (collapse cl),
                              tr\<lparr>tree_root := r'\<rparr>)
                 \<and> clade_at (tree_root tr) p' = Some (collapse cl)
                 \<and> length (children (collapse cl)) \<noteq> 1
                 \<and> (\<exists>d. clade_at r' p' = Some d
                        \<and> map_of (markers2nreads d) marker = Some n
                        \<and> (\<forall>m. m \<noteq> marker \<longrightarrow>
                              map_of (markers2nreads d) m
                              = map_of (markers2nreads (collapse cl)) m))
                 \<and> (\<forall>q d. q \<noteq> p' \<and> clade_at (tree_root tr) q = Some d \<longrightarrow>
                        (\<exists>d'. clade_at r' q = Some d'
                              \<and> markers2nreads d' = markers2nreads d)))"
proof (cases "(iv \<and> startswith cn ''k__Viruses'') \<or> (ie \<and> startswith cn ''k__Eukaryotes'')
            \<or> (ia \<and> startswith cn ''k__Archaea'') \<or> (ib \<and> startswith cn ''k__Bacteria'')")
  case True
  then have "ignored cn iv ie ib ia" by (auto simp: ignored_def)
  with assms True show ?thesis by (simp add: add_reads_def deref_def)
next
  case False
  then have ni: "\<not> ignored cn iv ie ib ia" by (auto simp: ignored_def)
  let ?r' = "update_at (set_nreads marker n) (tree_root tr) p'"
  have ret: "add_reads tr marker n iv ie ib ia
        = Inr (get_full_name (ancestors_at [] (tree_root tr) p') (collapse cl),
               tr\<lparr>tree_root := ?r'\<rparr>)"
    using assms ni by (simp add: add_reads_def deref_def Let_def)
  have at: "clade_at (tree_root tr) p' = Some (collapse cl)"
    using assms(3,5) by (simp add: clade_at_append clade_at_unary_chain)
  from clade_at_update_same[OF at]
  have new: "clade_at ?r' p' = Some (set_nreads marker n (collapse cl))" .
  have m1: "map_of (markers2nreads (set_nreads marker n (collapse cl))) marker = Some n"
    by (simp add: set_nreads_def map_of_dict_set_same)
  have m2: "\<forall>m. m \<noteq> marker \<longrightarrow>
              map_of (markers2nreads (set_nreads marker n (collapse cl))) m
              = map_of (markers2nreads (collapse cl)) m"
    by (simp add: set_nreads_def map_of_dict_set_other)
  have others: "\<forall>q d. q \<noteq> p' \<and> clade_at (tree_root tr) q = Some d \<longrightarrow>
                        (\<exists>d'. clade_at ?r' q = Some d'
                              \<and> markers2nreads d' = markers2nreads d)"
    using clade_at_update_other[of "set_nreads marker n"]
    by (auto simp: set_nreads_def)
  from False ret at new m1 m2 others collapse_not_unary[of cl] show ?thesis
    by (auto simp del: split_paired_All)
qed


theorem add_reads_records_witness:
  "dict_get (markers2clades ex_chain_tree) ''mB'' = Inr ''g__G''
   \<and> dict_get (all_clades ex_chain_tree) ''g__G'' = Inr [''k__Bacteria'', ''g__G'']
   \<and> clade_at (tree_root ex_chain_tree) [''k__Bacteria'', ''g__G''] = Some ex_genus
   \<and> (\<exists>r'. add_reads ex_chain_tree ''mB'' 7 False False False False
               = Inr (''k__Bacteria|g__G|s__One'', ex_chain_tree\<lparr>tree_root := r'\<rparr>)
           \<and> (\<exists>d. clade_at r' [''k__Bacteria'', ''g__G'', ''s__One''] = Some d
                  \<and> map_of (markers2nreads d) ''mB'' = Some 7))
   \<and> dict_get (markers2clades ex_chain_tree) ''mV'' = Inr ''s__V''
   \<and> dict_get (all_clades ex_chain_tree) ''s__V'' = Inr [''k__Viruses'', ''s__V'']
   \<and> clade_at (tree_root ex_chain_tree) [''k__Viruses'', ''s__V'']
       = Some (new_clade ''s__V'' [] [(''mV'', 0)])
   \<and> add_reads ex_chain_tree ''mV'' 3 True False False False = Inr ([], ex_chain_tree)"
proof -
  have h1: "dict_get (markers2clades ex_chain_tree) ''mB'' = Inr ''g__G''" by code_simp
  have h2: "dict_get (all_clades ex_chain_tree) ''g__G'' = Inr [''k__Bacteria'', ''g__G'']"
    by code_simp
  have h3: "clade_at (tree_root ex_chain_tree) [''k__Bacteria'', ''g__G''] = Some ex_genus"
    by code_simp
  have h5: "[''k__Bacteria'', ''g__G'', ''s__One'']
            = [''k__Bacteria'', ''g__G''] @ unary_chain ex_genus" by code_simp
  have e1: "get_full_name (ancestors_at [] (tree_root ex_chain_tree)
              [''k__Bacteria'', ''g__G'', ''s__One'']) (collapse ex_genus)
            = ''k__Bacteria|g__G|s__One''" by code_simp
  from add_reads_records[OF h1 h2 h3 refl h5, of False False False False 7]
  obtain r' d where
    r: "add_reads ex_chain_tree ''mB'' 7 False False False False
         = Inr (get_full_name (ancestors_at [] (tree_root ex_chain_tree)
                  [''k__Bacteria'', ''g__G'', ''s__One'']) (collapse ex_genus),
                ex_chain_tree\<lparr>tree_root := r'\<rparr>)"
    and d: "clade_at r' [''k__Bacteria'', ''g__G'', ''s__One''] = Some d"
      "map_of (markers2nreads d) ''mB'' = Some 7"
    unfolding simp_thms if_False by blast
  have a: "\<exists>r'. add_reads ex_chain_tree ''mB'' 7 False False False False
               = Inr (''k__Bacteria|g__G|s__One'', ex_chain_tree\<lparr>tree_root := r'\<rparr>)
           \<and> (\<exists>d. clade_at r' [''k__Bacteria'', ''g__G'', ''s__One''] = Some d
                  \<and> map_of (markers2nreads d) ''mB'' = Some 7)"
    using r[unfolded e1] d by blast
  have g1: "dict_get (markers2clades ex_chain_tree) ''mV'' = Inr ''s__V''" by code_simp
  have g2: "dict_get (all_clades ex_chain_tree) ''s__V'' = Inr [''k__Viruses'', ''s__V'']"
    by code_simp
  have g3: "clade_at (tree_root ex_chain_tree) [''k__Viruses'', ''s__V'']
       = Some (new_clade ''s__V'' [] [(''mV'', 0)])" by code_simp
  have e3: "startswith (get_full_name (ancestors_at [] (tree_root ex_chain_tree)
              [''k__Viruses'', ''s__V'']) (new_clade ''s__V'' [] [(''mV'', 0)])) ''k__Viruses''"
    by code_simp
  have b: "add_reads ex_chain_tree ''mV'' 3 True False False False = Inr ([], ex_chain_tree)"
    using add_reads_records[OF g1 g2 g3 refl refl, of True False False False 3] e3 by simp
  from h1 h2 h3 a g1 g2 g3 b show ?thesis by blast
qed

subsection \<open>The residual entry of \<^verbatim>\<open>relative_abundances\<close>\<close>

lemma sum_dict_set_new:
  "map_of d k = None \<Longrightarrow>
     sum_list (map snd (dict_set d k v)) = sum_list (map snd d) + (v::real)"
  by (induction d) (auto split: if_splits)

text \<open>
  With a rank filter, and when no kept entry bears the name of the residual entry,
  the values returned are the kept values and the residual, and they sum to 1.
\<close>

lemma relative_abundances_sum:
  assumes "relative_abundances cfg tr (Some lev) = Inr (ret_d, tr')" and "lev \<noteq> []"
    and "kept_abundances cfg tr (Some lev) = Inr (kept, tr'')"
    and "map_of kept (lev @ ''unclassified'') = None"
  shows "sum_list (map snd ret_d) = 1
         \<and> ret_d = dict_set kept (lev @ ''unclassified'') (1 - sum_list (map snd kept))"
  using assms
  by (auto simp: relative_abundances_def no_filter_def rank_prefix_def sum_dict_set_new)

text \<open>
  C8 at a taxonomy whose only species is named \<^verbatim>\<open>s__unclassified\<close>, with the rank
  filter \<^verbatim>\<open>s__\<close>: the one kept entry has the value 1, the residual 1 - 1 is stored
  under the same key, and the values returned sum to 0.
\<close>

theorem relative_abundances_residual_collision:
  "table_of (kept_abundances ex_config ex_uncl_tree (Some ''s__''))
     = Inr [(''s__unclassified'', 1)]
   \<and> table_of (relative_abundances ex_config ex_uncl_tree (Some ''s__''))
     = Inr [(''s__unclassified'', 0)]
   \<and> sum_list (map snd [(''s__unclassified'', 0 :: real)]) \<noteq> 1"
  by code_simp

subsection \<open>Quasi-marker disambiguation\<close>

lemma misidentified_iff:
  "misidentified tr es = Inr b \<Longrightarrow>
     b = list_ex (\<lambda>e. case ext_clade tr e of Inl x \<Rightarrow> False
                     | Inr toclade \<Rightarrow> over_third (markers2nreads (collapse toclade))) es"
proof (induction es)
  case Nil
  then show ?case by simp
next
  case (Cons e es)
  then show ?case
    by (auto simp: ext_clade_def over_third_def nonzeros_def Let_def
             split: sum.splits if_splits)
qed

lemma dict_get_Inr: "dict_get d k = Inr v \<longleftrightarrow> map_of d k = Some v"
  by (simp add: dict_get_def split: option.splits)

lemma disqm_loop_flagged:
  assumes "\<not> avoid_disqm cfg"
  shows "disqm_loop cfg tr ms = Inr (rat_nreads, removed) \<Longrightarrow>
     lens_of tr (filter (\<lambda>(m, n). flagged tr m) ms) = Inr removed
     \<and> lens_of tr (filter (\<lambda>(m, n). \<not> flagged tr m) ms) = Inr rat_nreads"
proof (induction ms arbitrary: rat_nreads removed)
  case Nil
  then show ?case by simp
next
  case (Cons mn ms)
  obtain m n where mn: "mn = (m, n)" by (cases mn)
  from Cons.prems assms obtain es mis l rat' rem' where
    es: "dict_get (markers2exts tr) m = Inr es"
    and mis: "misidentified tr es = Inr mis"
    and l: "dict_get (markers2lens tr) m = Inr l"
    and rest: "disqm_loop cfg tr ms = Inr (rat', rem')"
    and res: "if mis then rat_nreads = rat' \<and> removed = (l, n) # rem'
              else rat_nreads = (l, n) # rat' \<and> removed = rem'"
    unfolding mn by (auto split: sum.splits if_splits)
  from es misidentified_iff[OF mis] have f: "flagged tr m = mis"
    by (simp add: flagged_def dict_get_Inr)
  from Cons.IH[OF rest] f l res show ?case
    unfolding mn by (auto split: if_splits)
qed





text \<open>
  The condition on the extended sets is needed. The marker \<open>x\<close> of the second species
  lists a strain of its own species, so the clade referred to is the one \<open>x\<close> is
  recorded on. The code counts every marker recorded there, \<open>x\<close> with them: \<open>x\<close> has
  reads and its one fellow marker has none, one half of the markers have reads, and
  \<open>x\<close> is removed, although none of the other markers has reads.
\<close>

lemma own_clade_in_extended_set:
  "\<not> not_on_exts ex_disqm_tree ''x''
   \<and> disqm_loop ex_config ex_disqm_tree (markers2nreads ex_species_b)
       = Inr ([(400, 0)], [(300, 3)])
   \<and> flagged ex_disqm_tree ''x''
   \<and> \<not> spec_flagged ex_disqm_tree ''x''"
  by code_simp


subsection \<open>Restoring removed markers\<close>

lemma disqm_loop_lens:
  "disqm_loop cfg tr ms = Inr r \<Longrightarrow> \<exists>ps. lens_of tr ms = Inr ps"
proof (induction ms arbitrary: r)
  case Nil
  then show ?case by simp
next
  case (Cons mn ms)
  obtain m n where mn: "mn = (m, n)" by (cases mn)
  from Cons.prems obtain l r' where "dict_get (markers2lens tr) m = Inr l"
    "disqm_loop cfg tr ms = Inr r'"
    unfolding mn by (auto split: sum.splits if_splits)
  with Cons.IH[of r'] show ?case unfolding mn by auto
qed

lemma n_ripr_of_eq:
  "n_ripr_of anc c =
     (if length (get_terminals c) < 2 \<or> str_contains ''k__Viruses'' (get_full_name anc c)
      then 0 else 10)"
  by (simp add: n_ripr_of_def Let_def)

text \<open>
  C4, amended. With disambiguation enabled and at least one marker removed,
  \<^verbatim>\<open>n_ripr\<close> is 10, or 0 for a clade with fewer than two terminals or with
  \<^verbatim>\<open>k__Viruses\<close> in its full name; the removed markers are the flagged ones in the
  iteration order of \<^verbatim>\<open>markers2nreads\<close>; and when the active markers are fewer than
  \<^verbatim>\<open>n_ripr\<close>, the first removed markers in that order go back, until the active
  markers are \<^verbatim>\<open>n_ripr\<close> or no removed marker is left. The active set is the result,
  sorted by count.
\<close>

theorem restore_removed_order:
  assumes "\<not> avoid_disqm cfg"
    and "disqm_loop cfg tr (markers2nreads c) = Inr (rat_nreads, removed)"
    and "removed \<noteq> []"
  shows "n_ripr_of anc c =
           (if length (get_terminals c) < 2
               \<or> str_contains ''k__Viruses'' (get_full_name anc c) then 0 else 10)
         \<and> lens_of tr (filter (\<lambda>(m, n). flagged tr m) (markers2nreads c)) = Inr removed
         \<and> restore_removed cfg anc c rat_nreads removed
             = rat_nreads @ take (n_ripr_of anc c - length rat_nreads) removed
         \<and> length (restore_removed cfg anc c rat_nreads removed)
             = (if length rat_nreads < n_ripr_of anc c
                then min (n_ripr_of anc c) (length rat_nreads + length removed)
                else length rat_nreads)
         \<and> active_set cfg tr anc c
             = Inr (sort_key snd (rat_nreads @ take (n_ripr_of anc c - length rat_nreads) removed))"
proof -
  have r: "restore_removed cfg anc c rat_nreads removed
             = rat_nreads @ take (n_ripr_of anc c - length rat_nreads) removed"
    using assms(1,3) by (simp add: restore_removed_def Let_def)
  have l: "length (rat_nreads @ take (n_ripr_of anc c - length rat_nreads) removed)
             = (if length rat_nreads < n_ripr_of anc c
                then min (n_ripr_of anc c) (length rat_nreads + length removed)
                else length rat_nreads)"
    by auto
  from disqm_loop_lens[OF assms(2)] obtain ps where "lens_of tr (markers2nreads c) = Inr ps" ..
  then have a: "active_set cfg tr anc c
             = Inr (sort_key snd (rat_nreads @ take (n_ripr_of anc c - length rat_nreads) removed))"
    by (simp add: active_set_def assms(2) r)
  from disqm_loop_flagged[OF assms(1,2)] n_ripr_of_eq[of anc c] r l a
  show ?thesis by simp
qed

text \<open>
  C4, as the specification states it, fails: the first species has nine active
  markers and two removed ones, met in the order \<open>r1\<close> (five reads), \<open>r2\<close> (one read).
  The code restores \<open>r1\<close>; lowest count first would restore \<open>r2\<close>.
\<close>

theorem restore_not_lowest_first:
  "\<not> avoid_disqm ex_config
   \<and> disqm_loop ex_config ex_disqm_tree (markers2nreads ex_species_a)
       = Inr (ex_nine, [(700, 5), (800, 1)])
   \<and> n_ripr_of ex_disqm_anc ex_species_a = 10
   \<and> restore_removed ex_config ex_disqm_anc ex_species_a ex_nine [(700, 5), (800, 1)]
       = ex_nine @ [(700, 5)]
   \<and> spec_restored 10 ex_nine [(700, 5), (800, 1)] = ex_nine @ [(800, 1)]
   \<and> restore_removed ex_config ex_disqm_anc ex_species_a ex_nine [(700, 5), (800, 1)]
       \<noteq> spec_restored 10 ex_nine [(700, 5), (800, 1)]"
  by code_simp

theorem restore_removed_order_witness:
  "\<not> avoid_disqm ex_config
   \<and> disqm_loop ex_config ex_disqm_tree (markers2nreads ex_species_a)
       = Inr (ex_nine, [(700, 5), (800, 1)])
   \<and> [(700, 5), (800, 1)] \<noteq> ([] :: (int \<times> int) list)
   \<and> n_ripr_of ex_disqm_anc ex_species_a = 10
   \<and> active_set ex_config ex_disqm_tree ex_disqm_anc ex_species_a
       = Inr (ex_nine @ [(700, 5)])"
proof -
  have h1: "\<not> avoid_disqm ex_config" by code_simp
  have h2: "disqm_loop ex_config ex_disqm_tree (markers2nreads ex_species_a)
       = Inr (ex_nine, [(700, 5), (800, 1)])" by code_simp
  have h3: "[(700, 5), (800, 1)] \<noteq> ([] :: (int \<times> int) list)" by simp
  have e1: "n_ripr_of ex_disqm_anc ex_species_a = 10" by code_simp
  have e2: "sort_key snd (ex_nine @ take (10 - length ex_nine) [(700, 5), (800, 1)])
            = ex_nine @ [(700, 5)]" by code_simp
  from restore_removed_order[OF h1 h2 h3, of ex_disqm_anc] h1 h2 h3 e1 e2
  show ?thesis by simp
qed

subsection \<open>No NaN for a quantile below one half\<close>

text \<open>
  For a quantile in the interval from 0 to 1/2, the upper end excluded, the band that
  a trimming mode keeps is never empty, so \<^verbatim>\<open>compute_abundance\<close> yields no NaN: the
  outcomes of the source that the reals cannot represent do not arise.
\<close>

lemma ratios_length: "ratios ps = Inr rs \<Longrightarrow> length rs = length ps"
  by (induction ps arbitrary: rs) (auto split: if_splits sum.splits)

lemma band_length:
  assumes "0 < k" and "2 * k < int (length xs)"
  shows "length (py_slice xs (Some k) (Some (- k))) = length xs - 2 * nat k"
  using assms by (auto simp: py_slice_def slice_bound_def Let_def)

lemma quant_bounds:
  assumes "0 \<le> q" and "q < 1 / 2" and "act \<noteq> []"
  shows "0 \<le> quant_of q act \<and> 2 * quant_of q act < int (length act)"
proof -
  let ?n = "real (length act)"
  have n: "0 < ?n" using assms(3) by simp
  have "0 \<le> q * ?n" using assms(1) by simp
  then have qf: "quant_of q act = \<lfloor>q * ?n\<rfloor>" by (simp add: quant_of_def py_int_def)
  have "real_of_int \<lfloor>q * ?n\<rfloor> \<le> q * ?n" by simp
  also have "\<dots> < ?n / 2" using assms(2) n by (simp add: field_simps)
  finally have "2 * real_of_int \<lfloor>q * ?n\<rfloor> < ?n" by simp
  then have "2 * \<lfloor>q * ?n\<rfloor> < int (length act)" by linarith
  moreover have "0 \<le> \<lfloor>q * ?n\<rfloor>" using \<open>0 \<le> q * ?n\<close> by simp
  ultimately show ?thesis using qf by simp
qed

lemma rat_nonneg_nonempty: "\<not> rat_of act < 0 \<Longrightarrow> act \<noteq> []"
  by (auto simp: rat_of_def)

lemma band_nonempty:
  assumes "0 \<le> q" and "q < 1 / 2" and "xs \<noteq> []" and "length xs = length act"
  shows "py_slice xs (if quant_of q act \<noteq> 0 then Some (quant_of q act) else None)
           (if quant_of q act \<noteq> 0 then Some (- quant_of q act) else None) \<noteq> []"
proof (cases "quant_of q act = 0")
  case True
  with assms(3) show ?thesis by (simp add: py_slice_def)
next
  case False
  from assms have "act \<noteq> []" by auto
  from quant_bounds[OF assms(1,2) this] False assms(4)
  have "0 < quant_of q act" "2 * quant_of q act < int (length xs)" by auto
  from band_length[OF this] this False show ?thesis by auto
qed

lemma np_mean_nan: "np_mean xs = Inl e \<Longrightarrow> xs = []"
  by (simp add: np_mean_def split: if_splits)

lemma sort_key_eq_Nil: "sort_key f xs = [] \<longleftrightarrow> xs = []"
proof
  assume "sort_key f xs = []"
  then have "length (sort_key f xs) = 0" by (simp only: list.size)
  then show "xs = []" by simp
qed simp

lemma np_median_nan: "np_median xs = Inl e \<Longrightarrow> xs = []"
  by (simp add: np_median_def Let_def sort_key_eq_Nil split: if_splits)


lemma py_index_opt_not_nan: "py_index_opt xs io \<noteq> Inl NaN_result"
  by (simp add: py_index_opt_def py_index_def split: option.splits)

lemma ratios_not_nan: "ratios ps \<noteq> Inl NaN_result"
  by (induction ps) (auto split: sum.splits if_splits)

lemma local_abundance_not_nan:
  assumes "0 \<le> q" and "q < 1 / 2"
  shows "local_abundance st q act \<noteq> Inl NaN_result"
proof (cases "rat_of act < 0")
  case True
  then show ?thesis by (simp add: local_abundance_def Let_def)
next
  case False
  then have ne: "act \<noteq> []" by (rule rat_nonneg_nonempty)
  show ?thesis
  proof (cases "ratios act")
    case (Inl e)
    with ratios_not_nan[of act] have "e \<noteq> NaN_result" by auto
    with Inl False show ?thesis
      by (cases st) (auto simp: local_abundance_def Let_def py_index_opt_not_nan
                          split: sum.splits)
  next
    case (Inr rs)
    from ratios_length[OF Inr] ne have rs: "rs \<noteq> []" "length rs = length act" by auto
    then have srt: "sort rs \<noteq> []" "length (sort rs) = length act"
      by (simp_all add: sort_key_eq_Nil)
    note b1 = band_nonempty[OF assms srt]
    have m1: "np_mean rs \<noteq> Inl NaN_result" using rs by (auto dest: np_mean_nan)
    have m2: "np_mean (py_slice (sort rs)
                 (if quant_of q act \<noteq> 0 then Some (quant_of q act) else None)
                 (if quant_of q act \<noteq> 0 then Some (- quant_of q act) else None))
              \<noteq> Inl NaN_result"
      using b1 by (auto dest: np_mean_nan)
    have m3: "np_median (py_slice (sort rs)
                 (if quant_of q act \<noteq> 0 then Some (quant_of q act) else None)
                 (if quant_of q act \<noteq> 0 then Some (- quant_of q act) else None))
              \<noteq> Inl NaN_result"
      using b1 by (auto dest: np_median_nan)
    have m4: "np_mean (replicate k a @ py_slice (sort rs)
                 (if quant_of q act \<noteq> 0 then Some (quant_of q act) else None)
                 (if quant_of q act \<noteq> 0 then Some (- quant_of q act) else None) @ ys)
              \<noteq> Inl NaN_result" for k a ys
      using b1 by (auto dest: np_mean_nan)
    show ?thesis
      unfolding local_abundance_def Let_def
      using False Inr m1 m2 m3 m4
      by (cases st) (auto simp: py_index_opt_not_nan split: sum.splits)
  qed
qed


lemma dict_get_not_nan: "dict_get d k \<noteq> Inl NaN_result"
  by (simp add: dict_get_def split: option.splits)

lemma deref_not_nan: "deref r p \<noteq> Inl NaN_result"
  by (simp add: deref_def split: option.splits)

lemma misidentified_not_nan: "misidentified tr es \<noteq> Inl NaN_result"
  by (induction es)
     (auto simp: dict_get_not_nan deref_not_nan Let_def split: sum.splits)

lemma disqm_loop_not_nan: "disqm_loop cfg tr ms \<noteq> Inl NaN_result"
  by (induction ms)
     (auto simp: dict_get_not_nan misidentified_not_nan split: sum.splits if_splits)

lemma lens_of_not_nan: "lens_of tr ms \<noteq> Inl NaN_result"
  by (induction ms) (auto simp: dict_get_not_nan split: sum.splits)

lemma active_set_not_nan: "active_set cfg tr anc c \<noteq> Inl NaN_result"
  by (auto simp: active_set_def lens_of_not_nan disqm_loop_not_nan split: sum.splits)

lemma strain_rule_not_nan: "strain_rule anc c \<noteq> Inl NaN_result"
  by (simp add: strain_rule_def split: list.splits)

lemma clade_step_not_nan:
  assumes "0 \<le> quantile cfg" and "quantile cfg < 1 / 2"
  shows "clade_step cfg tr anc sum_ab c \<noteq> Inl NaN_result"
  by (auto simp: clade_step_def active_set_not_nan strain_rule_not_nan
                 local_abundance_not_nan[OF assms] split: sum.splits if_splits)

lemma compute_abundance_not_nan:
  assumes "0 \<le> quantile cfg" and "quantile cfg < 1 / 2"
  shows "compute_abundance cfg tr anc c \<noteq> Inl NaN_result"
    and "compute_children cfg tr anc chs \<noteq> Inl NaN_result"
  using assms
  by (induction cfg tr anc c and cfg tr anc chs
        rule: compute_abundance_compute_children.induct)
     (auto simp: clade_step_not_nan split: sum.splits option.splits)

end
